theory Spec2Isabelle
  imports Main "HOL-Library.Word"
begin

section \<open>Values of the JavaScript runtime\<close>

text \<open>
  The resolver of \<^verbatim>\<open>src/src/resolver.ts\<close> runs on Node: account data is a
  \<^verbatim>\<open>Buffer\<close> (a \<^verbatim>\<open>Uint8Array\<close>), modelled as a list of 8-bit words. Text is
  modelled by its UTF-8 code units, so \<^verbatim>\<open>TextEncoder.encode\<close> maps every unit to the byte
  of the same value and template-string concatenation is list append. Offsets and lengths
  stay far below \<open>2 ^ 53\<close> (at most \<open>126 + 2 * (2 ^ 32 - 1)\<close>), where JavaScript numbers
  are exact, so they are natural numbers here; \<^verbatim>\<open>BigInt\<close> values are natural numbers too.
\<close>

type_synonym byte = "8 word"

text \<open>
  A value thrown inside a \<^verbatim>\<open>try\<close> block: the \<^verbatim>\<open>RangeError\<close> of a bounds-checked
  \<^verbatim>\<open>Buffer\<close> read, or whatever an external collaborator throws.
\<close>

datatype thrown = RangeError | ExternalError string

definition TextEncoder_encode :: "string \<Rightarrow> byte list" where
  "TextEncoder_encode s = map of_char s"

section \<open>The base-58 encoder\<close>

definition BASE58_ALPHABET :: string where
  "BASE58_ALPHABET = ''123456789ABCDEFGHJKLMNPQRSTUVWXYZabcdefghijkmnopqrstuvwxyz''"

text \<open>
  The \<^verbatim>\<open>while (num > 0n)\<close> loop of \<^verbatim>\<open>encodeBase58\<close>: \<open>chars.unshift\<close> puts each new
  symbol in front. The remainder is below 58, so the alphabet is never indexed out of range.
\<close>

function base58_digits :: "nat \<Rightarrow> string \<Rightarrow> string" where
  "base58_digits num chars =
     (if num > 0
      then base58_digits (num div 58) (BASE58_ALPHABET ! (num mod 58) # chars)
      else chars)"
  by pat_completeness auto
termination
  by (relation "measure (\<lambda>(num, chars). num)") auto

declare base58_digits.simps [simp del]

text \<open>
  \<^verbatim>\<open>encodeBase58\<close>: the first loop counts the leading zero bytes (it breaks at the first
  nonzero byte), the second folds all bytes into one big-endian number, the third emits the
  base-58 digits and the last puts one \<open>1\<close> in front for each leading zero byte.
\<close>

definition encodeBase58 :: "byte list \<Rightarrow> string" where
  "encodeBase58 bytes =
     (let zeroes = length (takeWhile (\<lambda>b. b = 0) bytes);
          num = foldl (\<lambda>num b. num * 256 + unat b) 0 bytes;
          chars = base58_digits num []
      in replicate zeroes CHR ''1'' @ chars)"

subsection \<open>The manual re-derivation of the round-trip property\<close>

text \<open>
  The specification's round-trip test decodes by hand: the leading \<open>1\<close> symbols are counted
  as leading zero bytes, the remaining symbols are read as the base-58 digits of one number,
  most significant first, and that number is written back as big-endian bytes. These
  definitions follow the specification's words; they are compared with \<open>encodeBase58\<close>.
\<close>

fun symbol_index :: "string \<Rightarrow> char \<Rightarrow> nat" where
  "symbol_index [] c = 0"
| "symbol_index (a # as) c = (if a = c then 0 else Suc (symbol_index as c))"

definition base58_value :: "string \<Rightarrow> nat" where
  "base58_value s = foldl (\<lambda>n c. n * 58 + symbol_index BASE58_ALPHABET c) 0 s"

function big_endian_bytes :: "nat \<Rightarrow> byte list \<Rightarrow> byte list" where
  "big_endian_bytes n acc =
     (if n > 0 then big_endian_bytes (n div 256) (of_nat (n mod 256) # acc) else acc)"
  by pat_completeness auto
termination
  by (relation "measure (\<lambda>(n, acc). n)") auto

declare big_endian_bytes.simps [simp del]

definition rederive_bytes :: "string \<Rightarrow> byte list" where
  "rederive_bytes s =
     (let zeroes = length (takeWhile (\<lambda>c. c = CHR ''1'') s)
      in replicate zeroes 0 @ big_endian_bytes (base58_value (drop zeroes s)) [])"

text \<open>The number that the second loop of \<^verbatim>\<open>encodeBase58\<close> computes, under a name.\<close>

definition big_endian_value :: "byte list \<Rightarrow> nat" where
  "big_endian_value bytes = foldl (\<lambda>num b. num * 256 + unat b) 0 bytes"

section \<open>Reading a Buffer\<close>

text \<open>
  Node's \<^verbatim>\<open>readBigUInt64LE\<close> and \<^verbatim>\<open>readUInt32LE\<close> look at the first and the last byte
  of the field and throw a \<^verbatim>\<open>RangeError\<close> when either is missing; \<^verbatim>\<open>subarray\<close> clamps
  to the buffer; an index past the end reads \<^verbatim>\<open>undefined\<close>, which is \<open>None\<close> here.
\<close>

definition little_endian_value :: "byte list \<Rightarrow> nat" where
  "little_endian_value bytes = foldr (\<lambda>b n. unat b + 256 * n) bytes 0"

definition readBigUInt64LE :: "byte list \<Rightarrow> nat \<Rightarrow> thrown + nat" where
  "readBigUInt64LE buf offset =
     (if offset + 7 < length buf
      then Inr (little_endian_value (take 8 (drop offset buf)))
      else Inl RangeError)"

definition readUInt32LE :: "byte list \<Rightarrow> nat \<Rightarrow> thrown + nat" where
  "readUInt32LE buf offset =
     (if offset + 3 < length buf
      then Inr (little_endian_value (take 4 (drop offset buf)))
      else Inl RangeError)"

definition subarray :: "byte list \<Rightarrow> nat \<Rightarrow> nat \<Rightarrow> byte list" where
  "subarray buf start end = take (end - start) (drop start buf)"

definition byte_at :: "byte list \<Rightarrow> nat \<Rightarrow> byte option" where
  "byte_at buf offset = (if offset < length buf then Some (buf ! offset) else None)"

text \<open>\<^verbatim>\<open>BigInt.prototype.toString()\<close>: the decimal digits, most significant first.\<close>

function decimal_digits :: "nat \<Rightarrow> string \<Rightarrow> string" where
  "decimal_digits n chars =
     (if n > 0 then decimal_digits (n div 10) (''0123456789'' ! (n mod 10) # chars) else chars)"
  by pat_completeness auto
termination
  by (relation "measure (\<lambda>(n, chars). n)") auto

declare decimal_digits.simps [simp del]

definition bigint_toString :: "nat \<Rightarrow> string" where
  "bigint_toString n = (if n = 0 then ''0'' else decimal_digits n [])"

section \<open>The record decoder\<close>

record ResolvedAgent =
  payTo :: string
  amount :: string
  tokenMint :: string
  active :: bool

text \<open>What the resolver writes to the console, in order: the observable diagnostics.\<close>

datatype diagnostic =
    NoAccountData
  | UnexpectedDataFormat
  | AccountDataTooShort nat
  | DeserializationError thrown
  | FailedToDeserialize nat
  | ErrorResolving thrown

text \<open>
  The \<^verbatim>\<open>try\<close> block of \<^verbatim>\<open>deserializePaymentRequirement\<close>. The function \<open>to_address\<close> is
  \<^verbatim>\<open>address\<close> of \<^verbatim>\<open>@solana/kit\<close>, an external collaborator that returns its argument
  or throws; it is a parameter. The object literal evaluates \<open>payTo\<close> first, then
  \<open>amount\<close>, then \<open>tokenMint\<close>. The flag is \<^verbatim>\<open>data[offset] !== 0\<close>, and
  \<^verbatim>\<open>undefined !== 0\<close> is true. The call \<^verbatim>\<open>getAddressEncoder()\<close> in the source has no
  effect and its result is not used.
\<close>

definition deserialize_try ::
  "(string \<Rightarrow> thrown + string) \<Rightarrow> byte list \<Rightarrow> thrown + ResolvedAgent" where
  "deserialize_try to_address data =
     (let offset = 8;
          offset = offset + 32;
          offset = offset + 1;
          offset = offset + 1
      in case readBigUInt64LE data offset of
           Inl err \<Rightarrow> Inl err
         | Inr amountValue \<Rightarrow>
     (let offset = offset + 8;
          tokenMintBytes = subarray data offset (offset + 32);
          offset = offset + 32;
          payToBytes = subarray data offset (offset + 32);
          offset = offset + 32
      in case readUInt32LE data offset of
           Inl err \<Rightarrow> Inl err
         | Inr descLen \<Rightarrow>
     (let offset = offset + (4 + descLen)
      in case readUInt32LE data offset of
           Inl err \<Rightarrow> Inl err
         | Inr resLen \<Rightarrow>
     (let offset = offset + (4 + resLen);
          activeFlag = (byte_at data offset \<noteq> Some 0)
      in case to_address (encodeBase58 payToBytes) of
           Inl err \<Rightarrow> Inl err
         | Inr payToText \<Rightarrow>
       (case to_address (encodeBase58 tokenMintBytes) of
           Inl err \<Rightarrow> Inl err
         | Inr tokenMintText \<Rightarrow>
             Inr \<lparr>payTo = payToText, amount = bigint_toString amountValue,
                  tokenMint = tokenMintText, active = activeFlag\<rparr>)))))"

text \<open>
  \<^verbatim>\<open>deserializePaymentRequirement\<close>: the \<^verbatim>\<open>catch\<close> logs the error and returns
  \<^verbatim>\<open>null\<close>. The result comes with the diagnostics written.
\<close>

definition deserializePaymentRequirement ::
  "(string \<Rightarrow> thrown + string) \<Rightarrow> byte list \<Rightarrow> ResolvedAgent option \<times> diagnostic list" where
  "deserializePaymentRequirement to_address data =
     (case deserialize_try to_address data of
        Inl err \<Rightarrow> (None, [DeserializationError err])
      | Inr result \<Rightarrow> (Some result, []))"

section \<open>The record locator\<close>

definition Nouxis_PROGRAM_ID :: string where
  "Nouxis_PROGRAM_ID = ''NouXXXZsWXpanM5UzshMKZH4wUbeFNcxPWnFyTBgRP1''"

text \<open>
  \<^verbatim>\<open>SERVICE_TYPE_SEEDS\<close> is an object literal, so \<^verbatim>\<open>SERVICE_TYPE_SEEDS[serviceType]\<close>
  looks first at its four own properties and then at its prototype,
  \<^verbatim>\<open>Object.prototype\<close>: the lookup is \<^verbatim>\<open>undefined\<close> only for a name that neither has.
  The names below are the properties of \<^verbatim>\<open>Object.prototype\<close> on Node (V8).
\<close>

datatype property_value =
    StringValue string
  | InheritedMember string
  | Undefined

definition SERVICE_TYPE_SEEDS :: "(string \<times> string) list" where
  "SERVICE_TYPE_SEEDS =
     [(''mcp'', ''mcp''), (''a2a'', ''a2a''), (''api'', ''api''), (''web'', ''web'')]"

definition Object_prototype_names :: "string list" where
  "Object_prototype_names =
     [''constructor'', ''__defineGetter__'', ''__defineSetter__'', ''hasOwnProperty'',
      ''__lookupGetter__'', ''__lookupSetter__'', ''isPrototypeOf'',
      ''propertyIsEnumerable'', ''toString'', ''valueOf'', ''__proto__'',
      ''toLocaleString'']"

definition SERVICE_TYPE_SEEDS_get :: "string \<Rightarrow> property_value" where
  "SERVICE_TYPE_SEEDS_get name =
     (case map_of SERVICE_TYPE_SEEDS name of
        Some v \<Rightarrow> StringValue v
      | None \<Rightarrow> if name \<in> set Object_prototype_names then InheritedMember name else Undefined)"

text \<open>
  \<^verbatim>\<open>TextEncoder.encode\<close> converts its argument to a string first. A string is itself; an
  inherited member is a built-in function, whose text is its native source form
  (\<^verbatim>\<open>constructor\<close> is the function \<^verbatim>\<open>Object\<close>), except \<^verbatim>\<open>__proto__\<close>, whose getter
  returns the prototype object.
\<close>

definition ToString :: "property_value \<Rightarrow> string" where
  "ToString v =
     (case v of
        StringValue s \<Rightarrow> s
      | InheritedMember name \<Rightarrow>
          if name = ''__proto__'' then ''[object Object]''
          else ''function '' @ (if name = ''constructor'' then ''Object'' else name)
               @ ''() { [native code] }''
      | Undefined \<Rightarrow> ''undefined'')"

text \<open>
  \<^verbatim>\<open>const seed = SERVICE_TYPE_SEEDS[serviceType] ?? serviceType\<close>: the right operand is
  taken only when the lookup is \<^verbatim>\<open>undefined\<close>.
\<close>

definition seed_of :: "string \<Rightarrow> property_value" where
  "seed_of serviceType =
     (case SERVICE_TYPE_SEEDS_get serviceType of
        Undefined \<Rightarrow> StringValue serviceType
      | v \<Rightarrow> v)"

text \<open>The three seed segments, in the order of the array literal.\<close>

definition pda_seeds :: "byte list \<Rightarrow> string \<Rightarrow> byte list list" where
  "pda_seeds mintBytes serviceType =
     [TextEncoder_encode ''payment_req'',
      mintBytes,
      TextEncoder_encode (ToString (seed_of serviceType))]"

section \<open>The resolver\<close>

text \<open>
  The external collaborators of \<^verbatim>\<open>resolve\<close>, each returning a value or throwing:
  \<^verbatim>\<open>address\<close>, \<^verbatim>\<open>getAddressEncoder().encode\<close> and \<^verbatim>\<open>getProgramDerivedAddress\<close> of
  \<^verbatim>\<open>@solana/kit\<close> (the latter by program address and seeds; only the derived address of
  its result is used), the RPC request \<^verbatim>\<open>getAccountInfo(pda).send()\<close>, and
  \<^verbatim>\<open>Buffer.from(text, "base64")\<close>, which never throws.
\<close>

text \<open>
  The \<^verbatim>\<open>data\<close> field of the RPC response, as far as the resolver looks at it: a string,
  an array, any other truthy value, or a falsy one that is not the empty string.
\<close>

datatype account_data =
    DataString string
  | DataArray "account_data list"
  | DataObject
  | DataMissing

text \<open>The response is \<open>None\<close> when \<^verbatim>\<open>response.value\<close> is null.\<close>

type_synonym rpc_response = "account_data option"

record environment =
  address :: "string \<Rightarrow> thrown + string"
  encode_address :: "string \<Rightarrow> thrown + byte list"
  getProgramDerivedAddress :: "string \<Rightarrow> byte list list \<Rightarrow> thrown + string"
  getAccountInfo :: "string \<Rightarrow> thrown + rpc_response"
  Buffer_from_base64 :: "string \<Rightarrow> byte list"

record CachedResult =
  data :: ResolvedAgent
  expiresAt :: int

text \<open>The calls made to the derivation and the fetch collaborator, in order.\<close>

datatype collaborator_call =
    Derive string "byte list list"
  | Fetch string

text \<open>
  The fields of \<^verbatim>\<open>AgentResolver\<close>, and with them what an observer of the resolver sees:
  the collaborator calls made so far and the console output. Times are the integral
  milliseconds of \<^verbatim>\<open>Date.now()\<close>.
\<close>

record AgentResolver =
  cache :: "string \<rightharpoonup> CachedResult"
  cacheTtlMs :: int
  calls :: "collaborator_call list"
  console :: "diagnostic list"

text \<open>The constructor: \<^verbatim>\<open>options?.cacheTtlMs ?? 30_000\<close>, and an empty cache.\<close>

definition new_AgentResolver :: "int option \<Rightarrow> AgentResolver" where
  "new_AgentResolver ttl_option =
     \<lparr>cache = Map.empty,
      cacheTtlMs = (case ttl_option of None \<Rightarrow> 30000 | Some ttl \<Rightarrow> ttl),
      calls = [], console = []\<rparr>"

definition clearCache :: "AgentResolver \<Rightarrow> AgentResolver" where
  "clearCache r = r\<lparr>cache := Map.empty\<rparr>"

definition cacheKey :: "string \<Rightarrow> string \<Rightarrow> string" where
  "cacheKey agentMint serviceType = agentMint @ '':'' @ serviceType"

text \<open>
  The cache check at the head of \<^verbatim>\<open>resolve\<close>:
  \<^verbatim>\<open>cached && cached.expiresAt > Date.now()\<close>.
\<close>

definition cache_lookup :: "AgentResolver \<Rightarrow> string \<Rightarrow> int \<Rightarrow> ResolvedAgent option" where
  "cache_lookup r key now =
     (case cache r key of
        None \<Rightarrow> None
      | Some cached \<Rightarrow> if expiresAt cached > now then Some (data cached) else None)"

definition truthy :: "account_data \<Rightarrow> bool" where
  "truthy d = (case d of DataString s \<Rightarrow> s \<noteq> [] | DataMissing \<Rightarrow> False | _ \<Rightarrow> True)"

definition warn :: "AgentResolver \<Rightarrow> diagnostic list \<Rightarrow> AgentResolver" where
  "warn r ds = r\<lparr>console := console r @ ds\<rparr>"

definition called :: "AgentResolver \<Rightarrow> collaborator_call \<Rightarrow> AgentResolver" where
  "called r c = r\<lparr>calls := calls r @ [c]\<rparr>"

text \<open>
  What \<^verbatim>\<open>resolve\<close> does with the response of the fetch: the part of the \<^verbatim>\<open>try\<close>
  block after \<^verbatim>\<open>send()\<close>, which throws nothing. \<open>now\<close> is the \<^verbatim>\<open>Date.now()\<close> of the
  store.
\<close>

definition handle_response ::
  "environment \<Rightarrow> int \<Rightarrow> AgentResolver \<Rightarrow> string \<Rightarrow> rpc_response
     \<Rightarrow> ResolvedAgent option \<times> AgentResolver" where
  "handle_response env now r key response =
     (case response of
        None \<Rightarrow> (None, warn r [NoAccountData])
      | Some raw \<Rightarrow>
          if \<not> truthy raw then (None, warn r [NoAccountData])
          else
            (let base64String =
                   (case raw of
                      DataArray [] \<Rightarrow> DataMissing
                    | DataArray (first # rest) \<Rightarrow> first
                    | _ \<Rightarrow> raw)
             in case base64String of
                  DataString text \<Rightarrow>
                    (let buf = Buffer_from_base64 env text
                     in if length buf < 8 then (None, warn r [AccountDataTooShort (length buf)])
                        else
                          (case deserializePaymentRequirement (address env) buf of
                             (None, logged) \<Rightarrow>
                               (None, warn r (logged @ [FailedToDeserialize (length buf)]))
                           | (Some result, logged) \<Rightarrow>
                               (Some result,
                                (warn r logged)\<lparr>cache := (cache r)(key \<mapsto>
                                   \<lparr>data = result, expiresAt = now + cacheTtlMs r\<rparr>)\<rparr>)))
                | _ \<Rightarrow> (None, warn r [UnexpectedDataFormat])))"

text \<open>
  The \<^verbatim>\<open>try\<close> block of \<^verbatim>\<open>resolve\<close>: \<open>Inl\<close> is a value thrown by a collaborator, with
  the resolver as it was when the collaborator threw.
\<close>

definition resolve_try ::
  "environment \<Rightarrow> int \<Rightarrow> AgentResolver \<Rightarrow> string \<Rightarrow> string
     \<Rightarrow> (thrown + ResolvedAgent option) \<times> AgentResolver" where
  "resolve_try env now r agentMint serviceType =
     (case address env agentMint of
        Inl err \<Rightarrow> (Inl err, r)
      | Inr mintAddress \<Rightarrow>
     (case encode_address env mintAddress of
        Inl err \<Rightarrow> (Inl err, r)
      | Inr mintBytes \<Rightarrow>
     (let seeds = pda_seeds mintBytes serviceType;
          r1 = called r (Derive Nouxis_PROGRAM_ID seeds)
      in case getProgramDerivedAddress env Nouxis_PROGRAM_ID seeds of
           Inl err \<Rightarrow> (Inl err, r1)
         | Inr pdaAddress \<Rightarrow>
     (let r2 = called r1 (Fetch pdaAddress)
      in case getAccountInfo env pdaAddress of
           Inl err \<Rightarrow> (Inl err, r2)
         | Inr response \<Rightarrow>
             (case handle_response env now r2 (cacheKey agentMint serviceType) response of
                (result, r3) \<Rightarrow> (Inr result, r3))))))"

text \<open>
  The \<^verbatim>\<open>try\<close> statement of \<^verbatim>\<open>resolve\<close> with its \<^verbatim>\<open>catch\<close>, which logs what
  was thrown and returns \<^verbatim>\<open>null\<close>: what \<^verbatim>\<open>resolve\<close> does when the cache does not
  serve the key.
\<close>

definition resolve_miss ::
  "environment \<Rightarrow> int \<Rightarrow> AgentResolver \<Rightarrow> string \<Rightarrow> string
     \<Rightarrow> ResolvedAgent option \<times> AgentResolver" where
  "resolve_miss env now r agentMint serviceType =
     (case resolve_try env now r agentMint serviceType of
        (Inl err, r') \<Rightarrow> (None, warn r' [ErrorResolving err])
      | (Inr result, r') \<Rightarrow> (result, r'))"

text \<open>
  The default parameter \<^verbatim>\<open>serviceType: string = "a2a"\<close>: an omitted argument is
  \<open>None\<close>.
\<close>

definition serviceType_or_default :: "string option \<Rightarrow> string" where
  "serviceType_or_default argument = (case argument of None \<Rightarrow> ''a2a'' | Some s \<Rightarrow> s)"

text \<open>
  \<^verbatim>\<open>resolve\<close>. \<open>now_lookup\<close> is the \<^verbatim>\<open>Date.now()\<close> of the cache check and
  \<open>now_store\<close> the later one of the store.
\<close>

definition resolve ::
  "environment \<Rightarrow> int \<Rightarrow> int \<Rightarrow> AgentResolver \<Rightarrow> string \<Rightarrow> string option
     \<Rightarrow> ResolvedAgent option \<times> AgentResolver" where
  "resolve env now_lookup now_store r agentMint serviceType_argument =
     (let serviceType = serviceType_or_default serviceType_argument
      in case cache_lookup r (cacheKey agentMint serviceType) now_lookup of
           Some cached \<Rightarrow> (Some cached, r)
         | None \<Rightarrow> resolve_miss env now_store r agentMint serviceType)"

text \<open>How often the fetch collaborator has been called.\<close>

definition fetch_count :: "AgentResolver \<Rightarrow> nat" where
  "fetch_count r = length (filter (\<lambda>c. case c of Fetch pda \<Rightarrow> True | _ \<Rightarrow> False) (calls r))"

section \<open>A reference world\<close>

text \<open>
  Concrete blobs and collaborators at which the theorems below are instantiated. The blobs
  are those of the specification's layout test; the collaborators are small stand-ins with
  the contracts of the real ones.
\<close>

primrec little_endian_bytes :: "nat \<Rightarrow> nat \<Rightarrow> byte list" where
  "little_endian_bytes 0 n = []"
| "little_endian_bytes (Suc k) n = of_nat (n mod 256) # little_endian_bytes k (n div 256)"

text \<open>
  Discriminator, subject, category tag, scheme tag, amount 1000000, asset address,
  recipient address, empty description, empty resource, active flag 1.
\<close>

definition synthetic_blob :: "byte list" where
  "synthetic_blob =
     replicate 8 0 @ replicate 32 0 @ [0] @ [0]
     @ little_endian_bytes 8 1000000
     @ replicate 32 1 @ replicate 32 2
     @ little_endian_bytes 4 0 @ little_endian_bytes 4 0 @ [1]"

text \<open>The same blob ending where the active flag would be.\<close>

definition flagless_blob :: "byte list" where
  "flagless_blob =
     replicate 8 0 @ replicate 32 0 @ [0] @ [0]
     @ little_endian_bytes 8 1000000
     @ replicate 32 1 @ replicate 32 2
     @ little_endian_bytes 4 0 @ little_endian_bytes 4 0"

text \<open>
  A blob whose resource label declares \<open>0xFFFFFFFF\<close> bytes and ends right after that
  length prefix, and one whose description does.
\<close>

definition resource_overrun_blob :: "byte list" where
  "resource_overrun_blob =
     replicate 8 0 @ replicate 32 0 @ [0] @ [0]
     @ little_endian_bytes 8 1000000
     @ replicate 32 1 @ replicate 32 2
     @ little_endian_bytes 4 0 @ little_endian_bytes 4 0xFFFFFFFF"

definition description_overrun_blob :: "byte list" where
  "description_overrun_blob =
     replicate 8 0 @ replicate 32 0 @ [0] @ [0]
     @ little_endian_bytes 8 1000000
     @ replicate 32 1 @ replicate 32 2
     @ little_endian_bytes 4 0xFFFFFFFF @ little_endian_bytes 4 0 @ [1]"

text \<open>Standard base-64 decoding of well-formed text, for \<^verbatim>\<open>Buffer.from(text, "base64")\<close>.\<close>

definition BASE64_ALPHABET :: string where
  "BASE64_ALPHABET = ''ABCDEFGHIJKLMNOPQRSTUVWXYZabcdefghijklmnopqrstuvwxyz0123456789+/''"

fun base64_groups :: "nat list \<Rightarrow> byte list" where
  "base64_groups (a # b # c # d # rest) =
     of_nat (a * 4 + b div 16) # of_nat ((b mod 16) * 16 + c div 4)
       # of_nat ((c mod 4) * 64 + d) # base64_groups rest"
| "base64_groups [a, b, c] = [of_nat (a * 4 + b div 16), of_nat ((b mod 16) * 16 + c div 4)]"
| "base64_groups [a, b] = [of_nat (a * 4 + b div 16)]"
| "base64_groups [a] = []"
| "base64_groups [] = []"

definition base64_decode :: "string \<Rightarrow> byte list" where
  "base64_decode text =
     base64_groups (map (symbol_index BASE64_ALPHABET) (takeWhile (\<lambda>c. c \<noteq> CHR ''='') text))"

definition synthetic_payload :: string where
  "synthetic_payload =
     ''AAAAAAAAAAAAAAAAAAAAAAAAAAAAAAAAAAAAAAAAAAAAAAAAAAAAAAAAQEIPAAAAAAABAQEBAQEBAQEBAQEBAQEBAQEBAQEBAQEBAQEBAQEBAQICAgICAgICAgICAgICAgICAgICAgICAgICAgICAgICAAAAAAAAAAAB''"

definition resource_overrun_payload :: string where
  "resource_overrun_payload =
     ''AAAAAAAAAAAAAAAAAAAAAAAAAAAAAAAAAAAAAAAAAAAAAAAAAAAAAAAAQEIPAAAAAAABAQEBAQEBAQEBAQEBAQEBAQEBAQEBAQEBAQEBAQEBAQICAgICAgICAgICAgICAgICAgICAgICAgICAgICAgICAAAAAP////8=''"

definition description_overrun_payload :: string where
  "description_overrun_payload =
     ''AAAAAAAAAAAAAAAAAAAAAAAAAAAAAAAAAAAAAAAAAAAAAAAAAAAAAAAAQEIPAAAAAAABAQEBAQEBAQEBAQEBAQEBAQEBAQEBAQEBAQEBAQEBAQICAgICAgICAgICAgICAgICAgICAgICAgICAgICAgIC/////wAAAAAB''"

text \<open>The base-64 text of 39 zero bytes.\<close>

definition short_payload :: string where
  "short_payload = replicate 52 CHR ''A''"

text \<open>
  \<^verbatim>\<open>address\<close> returns a text that decodes to 32 bytes and throws on any other;
  the address encoder gives those bytes.
\<close>

definition sample_address :: "string \<Rightarrow> thrown + string" where
  "sample_address text =
     (if length (rederive_bytes text) = 32 then Inr text
      else Inl (ExternalError ''invalid address''))"

definition sample_encode_address :: "string \<Rightarrow> thrown + byte list" where
  "sample_encode_address text = Inr (rederive_bytes text)"

text \<open>
  The derivation refuses a seed of more than 32 bytes, as the real one does; the derived
  address is a text written from the seeds.
\<close>

definition byte_char :: "byte \<Rightarrow> char" where
  "byte_char b = char_of (unat b)"

definition sample_pda :: "byte list list \<Rightarrow> string" where
  "sample_pda seeds = concat (map (\<lambda>seed. CHR ''/'' # map byte_char seed) seeds)"

definition sample_derive :: "string \<Rightarrow> byte list list \<Rightarrow> thrown + string" where
  "sample_derive program seeds =
     (if list_all (\<lambda>seed. length seed \<le> 32) seeds then Inr (sample_pda seeds)
      else Inl (ExternalError ''max seed length exceeded''))"

text \<open>
  The account of the subject with 32 zero bytes and category \<open>a2a\<close> holds \<open>payload\<close>;
  no other account exists.
\<close>

definition sample_mint :: string where
  "sample_mint = replicate 32 CHR ''1''"

definition sample_getAccountInfo :: "string \<Rightarrow> string \<Rightarrow> thrown + rpc_response" where
  "sample_getAccountInfo payload pda =
     (if pda = sample_pda (pda_seeds (replicate 32 0) ''a2a'')
      then Inr (Some (DataArray [DataString payload, DataString ''base64'']))
      else Inr None)"

definition sample_env :: "string \<Rightarrow> environment" where
  "sample_env payload =
     \<lparr>address = sample_address,
      encode_address = sample_encode_address,
      getProgramDerivedAddress = sample_derive,
      getAccountInfo = sample_getAccountInfo payload,
      Buffer_from_base64 = base64_decode\<rparr>"

definition sample_record :: ResolvedAgent where
  "sample_record =
     \<lparr>payTo = encodeBase58 (replicate 32 2), amount = ''1000000'',
      tokenMint = encodeBase58 (replicate 32 1), active = True\<rparr>"

section \<open>Properties of the base-58 encoder\<close>

lemma base58_digits_zero: "base58_digits 0 chars = chars"
  by (simp add: base58_digits.simps)

lemma base58_digits_pos:
  "0 < n \<Longrightarrow> base58_digits n chars = base58_digits (n div 58) (BASE58_ALPHABET ! (n mod 58) # chars)"
  by (subst base58_digits.simps) simp

lemma base58_digits_acc: "base58_digits n acc = base58_digits n [] @ acc"
proof (induction n arbitrary: acc rule: less_induct)
  case (less n)
  show ?case
  proof (cases "0 < n")
    case True
    then have lt: "n div 58 < n" by simp
    show ?thesis
      using less.IH [OF lt, of "BASE58_ALPHABET ! (n mod 58) # acc"]
            less.IH [OF lt, of "[BASE58_ALPHABET ! (n mod 58)]"]
      by (simp add: base58_digits_pos [OF True])
  next
    case False
    then show ?thesis by (simp add: base58_digits_zero)
  qed
qed

lemma base58_digits_snoc:
  "0 < n \<Longrightarrow> base58_digits n [] = base58_digits (n div 58) [] @ [BASE58_ALPHABET ! (n mod 58)]"
  using base58_digits_acc [of "n div 58" "[BASE58_ALPHABET ! (n mod 58)]"]
  by (simp add: base58_digits_pos)

lemma symbol_index_table:
  "list_all (\<lambda>d. symbol_index BASE58_ALPHABET (BASE58_ALPHABET ! d) = d) [0..<58]"
  by code_simp

lemma symbol_index_nth:
  "d < 58 \<Longrightarrow> symbol_index BASE58_ALPHABET (BASE58_ALPHABET ! d) = d"
  using symbol_index_table by (simp add: list_all_iff)

lemma base58_value_snoc:
  "base58_value (s @ [c]) = base58_value s * 58 + symbol_index BASE58_ALPHABET c"
  by (simp add: base58_value_def)

lemma base58_value_digits: "base58_value (base58_digits n []) = n"
proof (induction n rule: less_induct)
  case (less n)
  show ?case
  proof (cases "0 < n")
    case True
    then have lt: "n div 58 < n" by simp
    show ?thesis
      using less.IH [OF lt]
      by (simp add: base58_digits_snoc [OF True] base58_value_snoc symbol_index_nth)
  next
    case False
    then show ?thesis by (simp add: base58_digits_zero base58_value_def)
  qed
qed

lemma leading_symbol_zero_only:
  "d < 58 \<Longrightarrow> BASE58_ALPHABET ! d = CHR ''1'' \<Longrightarrow> d = 0"
proof -
  assume d: "d < 58" and e: "BASE58_ALPHABET ! d = CHR ''1''"
  have "symbol_index BASE58_ALPHABET (CHR ''1'') = 0"
    by (simp add: BASE58_ALPHABET_def)
  with symbol_index_nth [OF d] e show "d = 0" by simp
qed

lemma base58_digits_head:
  "0 < n \<Longrightarrow> \<exists>c cs. base58_digits n [] = c # cs \<and> c \<noteq> CHR ''1''"
proof (induction n rule: less_induct)
  case (less n)
  show ?case
  proof (cases "0 < n div 58")
    case True
    have lt: "n div 58 < n" using less.prems by simp
    from less.IH [OF lt True] obtain c cs
      where "base58_digits (n div 58) [] = c # cs" "c \<noteq> CHR ''1''" by blast
    then show ?thesis
      by (simp add: base58_digits_snoc [OF less.prems])
  next
    case False
    then have small: "n div 58 = 0" by simp
    then have "n < 58" by (simp add: div_eq_0_iff)
    then have "n mod 58 = n" by simp
    moreover have "BASE58_ALPHABET ! n \<noteq> CHR ''1''"
      using leading_symbol_zero_only [of n] \<open>n < 58\<close> less.prems by auto
    ultimately show ?thesis
      by (simp add: base58_digits_snoc [OF less.prems] small base58_digits_zero)
  qed
qed

lemma takeWhile_replicate_append:
  "P a \<Longrightarrow> takeWhile P (replicate z a @ ys) = replicate z a @ takeWhile P ys"
  by (induction z) simp_all

lemma takeWhile_leading_symbols:
  "length (takeWhile (\<lambda>c. c = CHR ''1'') (replicate z CHR ''1'' @ base58_digits n [])) = z"
proof (cases "0 < n")
  case True
  from base58_digits_head [OF True] obtain c cs
    where "base58_digits n [] = c # cs" "c \<noteq> CHR ''1''" by blast
  then show ?thesis by (simp add: takeWhile_replicate_append)
next
  case False
  then show ?thesis by (simp add: base58_digits_zero takeWhile_replicate_append)
qed

lemma big_endian_value_snoc:
  "big_endian_value (bs @ [b]) = big_endian_value bs * 256 + unat b"
  by (simp add: big_endian_value_def)

lemma big_endian_bytes_zero: "big_endian_bytes 0 acc = acc"
  by (simp add: big_endian_bytes.simps)

lemma big_endian_bytes_pos:
  "0 < n \<Longrightarrow> big_endian_bytes n acc = big_endian_bytes (n div 256) (of_nat (n mod 256) # acc)"
  by (subst big_endian_bytes.simps) simp

lemma big_endian_bytes_acc: "big_endian_bytes n acc = big_endian_bytes n [] @ acc"
proof (induction n arbitrary: acc rule: less_induct)
  case (less n)
  show ?case
  proof (cases "0 < n")
    case True
    then have lt: "n div 256 < n" by simp
    show ?thesis
      using less.IH [OF lt, of "of_nat (n mod 256) # acc"]
            less.IH [OF lt, of "[of_nat (n mod 256)]"]
      by (simp add: big_endian_bytes_pos [OF True])
  next
    case False
    then show ?thesis by (simp add: big_endian_bytes_zero)
  qed
qed

lemma unat_byte_lt: "unat (b :: byte) < 256"
  using unsigned_less [of b, where ?'a = nat] by simp

lemma big_endian_value_zeroes: "big_endian_value (replicate z 0 @ bs) = big_endian_value bs"
proof -
  have "foldl (\<lambda>num (b::byte). num * 256 + unat b) 0 (replicate z 0) = 0"
    by (induction z) simp_all
  then show ?thesis by (simp add: big_endian_value_def)
qed

lemma big_endian_roundtrip:
  "bs = [] \<or> hd bs \<noteq> 0 \<Longrightarrow>
     big_endian_bytes (big_endian_value bs) [] = bs \<and> (bs \<noteq> [] \<longrightarrow> 0 < big_endian_value bs)"
proof (induction bs rule: rev_induct)
  case Nil
  then show ?case by (simp add: big_endian_value_def big_endian_bytes_zero)
next
  case (snoc b bs)
  let ?n = "big_endian_value bs * 256 + unat b"
  have lt: "unat b < 256" by (rule unat_byte_lt)
  have dv: "?n div 256 = big_endian_value bs" using lt by simp
  have md: "?n mod 256 = unat b" using lt by simp
  show ?case
  proof (cases "bs = []")
    case True
    with snoc.prems have nz: "b \<noteq> 0" by simp
    then have pos: "0 < unat b" by (simp add: unat_gt_0)
    have v: "big_endian_value [b] = unat b" by (simp add: big_endian_value_def)
    have "big_endian_bytes (unat b) [] = [b]"
      using lt by (simp add: big_endian_bytes_pos [OF pos] big_endian_bytes_zero)
    with True v pos show ?thesis by simp
  next
    case False
    with snoc.prems have "hd bs \<noteq> 0" by simp
    with snoc.IH False have ih: "big_endian_bytes (big_endian_value bs) [] = bs"
      and ihpos: "0 < big_endian_value bs" by simp_all
    have pos: "0 < ?n" using ihpos by simp
    have "big_endian_bytes ?n [] = big_endian_bytes (big_endian_value bs) [of_nat (unat b)]"
      by (simp only: big_endian_bytes_pos [OF pos] dv md)
    also have "\<dots> = bs @ [b]"
      using big_endian_bytes_acc [of "big_endian_value bs" "[of_nat (unat b)]"] ih by simp
    finally show ?thesis using pos by (simp add: big_endian_value_snoc)
  qed
qed

lemma leading_zero_split:
  "\<exists>rest. bs = replicate (length (takeWhile (\<lambda>b. b = 0) bs)) (0::byte) @ rest
          \<and> (rest = [] \<or> hd rest \<noteq> 0)"
proof (induction bs)
  case Nil
  then show ?case by simp
next
  case (Cons b bs)
  then show ?case by (cases "b = 0") auto
qed

lemma rederive_encode: "rederive_bytes (encodeBase58 bs) = bs"
proof -
  let ?z = "length (takeWhile (\<lambda>b. b = 0) bs)"
  from leading_zero_split [of bs] obtain rest
    where bs: "bs = replicate ?z 0 @ rest" and rest: "rest = [] \<or> hd rest \<noteq> 0" by blast
  have num: "foldl (\<lambda>num b. num * 256 + unat b) 0 bs = big_endian_value rest"
    using big_endian_value_zeroes [of ?z rest] bs by (simp add: big_endian_value_def)
  have enc: "encodeBase58 bs = replicate ?z CHR ''1'' @ base58_digits (big_endian_value rest) []"
    by (simp add: encodeBase58_def Let_def num)
  have "rederive_bytes (encodeBase58 bs) = replicate ?z 0 @ rest"
    using big_endian_roundtrip [OF rest]
    by (simp add: enc rederive_bytes_def Let_def takeWhile_leading_symbols base58_value_digits)
  with bs show ?thesis by simp
qed

lemma encode_zeroes: "encodeBase58 (replicate z 0) = replicate z CHR ''1''"
proof -
  have "foldl (\<lambda>num (b::byte). num * 256 + unat b) 0 (replicate z 0) = 0"
    by (induction z) simp_all
  moreover have "takeWhile (\<lambda>b. b = 0) (replicate z (0::byte)) = replicate z 0"
    by (induction z) simp_all
  ultimately show ?thesis
    by (simp add: encodeBase58_def Let_def base58_digits_zero)
qed

text \<open>
  C4. The base-58 encoder loses nothing. Encoding 32 zero bytes gives exactly 32 copies of
  the leading symbol \<open>1\<close> and nothing else; and for every byte array (of any length, so
  also of 1 to 64 bytes) counting the leading \<open>1\<close> symbols of its encoding as zero bytes
  and writing the number of the remaining base-58 digits back as big-endian bytes gives the
  array again.
\<close>

theorem base58_roundtrip:
  "encodeBase58 (replicate 32 0) = replicate 32 CHR ''1''
   \<and> rederive_bytes (encodeBase58 bytes) = bytes"
  by (simp only: rederive_encode encode_zeroes simp_thms)

section \<open>The reference world computes\<close>

lemma little_endian_bytes_numeral:
  "little_endian_bytes (numeral k) n
     = of_nat (n mod 256) # little_endian_bytes (pred_numeral k) (n div 256)"
  by (simp only: numeral_eq_Suc [of k] little_endian_bytes.simps)

lemma amount_bytes: "little_endian_bytes 8 1000000 = [0x40, 0x42, 0x0F, 0, 0, 0, 0, 0]"
  by (simp add: little_endian_bytes_numeral)

lemma zero_length_bytes: "little_endian_bytes 4 0 = [0, 0, 0, 0]"
  by (simp add: little_endian_bytes_numeral)

lemma maximal_length_bytes: "little_endian_bytes 4 0xFFFFFFFF = [0xFF, 0xFF, 0xFF, 0xFF]"
  by (simp add: little_endian_bytes_numeral)

lemma replicate_numeral: "replicate (numeral k) x = x # replicate (pred_numeral k) x"
  by (simp only: numeral_eq_Suc [of k] replicate.simps)

lemma bigint_1000000: "bigint_toString 1000000 = ''1000000''"
  by (simp add: bigint_toString_def decimal_digits.simps)

lemmas blob_defs =
  synthetic_blob_def flagless_blob_def resource_overrun_blob_def description_overrun_blob_def
  amount_bytes zero_length_bytes maximal_length_bytes

lemma synthetic_blob_reads:
  "readBigUInt64LE synthetic_blob 42 = Inr 1000000"
  "subarray synthetic_blob 50 82 = replicate 32 1"
  "subarray synthetic_blob 82 114 = replicate 32 2"
  "readUInt32LE synthetic_blob 114 = Inr 0"
  "readUInt32LE synthetic_blob 118 = Inr 0"
  "byte_at synthetic_blob 122 = Some 1"
  by (simp_all add: readBigUInt64LE_def readUInt32LE_def subarray_def byte_at_def
      blob_defs little_endian_value_def nth_append)

lemma flagless_blob_reads:
  "readBigUInt64LE flagless_blob 42 = Inr 1000000"
  "subarray flagless_blob 50 82 = replicate 32 1"
  "subarray flagless_blob 82 114 = replicate 32 2"
  "readUInt32LE flagless_blob 114 = Inr 0"
  "readUInt32LE flagless_blob 118 = Inr 0"
  "length flagless_blob = 122"
  by (simp_all add: readBigUInt64LE_def readUInt32LE_def subarray_def
      blob_defs little_endian_value_def)

lemma resource_overrun_blob_reads:
  "readBigUInt64LE resource_overrun_blob 42 = Inr 1000000"
  "subarray resource_overrun_blob 50 82 = replicate 32 1"
  "subarray resource_overrun_blob 82 114 = replicate 32 2"
  "readUInt32LE resource_overrun_blob 114 = Inr 0"
  "readUInt32LE resource_overrun_blob 118 = Inr 4294967295"
  "length resource_overrun_blob = 122"
  by (simp_all add: readBigUInt64LE_def readUInt32LE_def subarray_def
      blob_defs little_endian_value_def)

lemma description_overrun_blob_reads:
  "readUInt32LE description_overrun_blob 114 = Inr 4294967295"
  "length description_overrun_blob = 123"
  by (simp_all add: readUInt32LE_def blob_defs little_endian_value_def)

lemma synthetic_payload_decodes: "base64_decode synthetic_payload = synthetic_blob"
  by (simp add: base64_decode_def synthetic_payload_def BASE64_ALPHABET_def
      blob_defs replicate_numeral)

lemma resource_overrun_payload_decodes:
  "base64_decode resource_overrun_payload = resource_overrun_blob"
  by (simp add: base64_decode_def resource_overrun_payload_def BASE64_ALPHABET_def
      blob_defs replicate_numeral)

lemma description_overrun_payload_decodes:
  "base64_decode description_overrun_payload = description_overrun_blob"
  by (simp add: base64_decode_def description_overrun_payload_def BASE64_ALPHABET_def
      blob_defs replicate_numeral)

lemma short_payload_decodes: "base64_decode short_payload = replicate 39 0"
  by (simp add: base64_decode_def short_payload_def BASE64_ALPHABET_def replicate_numeral)

lemma sample_address_accepts:
  "length bytes = 32 \<Longrightarrow> sample_address (encodeBase58 bytes) = Inr (encodeBase58 bytes)"
  by (simp add: sample_address_def rederive_encode)

lemma sample_mint_address: "sample_address sample_mint = Inr sample_mint"
  using sample_address_accepts [of "replicate 32 0"]
  by (simp add: sample_mint_def encode_zeroes)

lemma sample_mint_bytes: "sample_encode_address sample_mint = Inr (replicate 32 0)"
  using rederive_encode [of "replicate 32 0"]
  by (simp add: sample_encode_address_def sample_mint_def encode_zeroes)

lemma byte_char_of_char: "byte_char (of_char c) = c"
proof -
  have "unat (of_nat (of_char c) :: byte) = of_char c mod 256"
    by (simp add: unat_of_nat)
  then have "unat (of_char c :: byte) = of_char c"
    by (simp add: of_nat_of_char)
  then show ?thesis by (simp add: byte_char_def)
qed

lemma byte_char_text: "map byte_char (TextEncoder_encode s) = s"
  by (induction s) (simp_all add: TextEncoder_encode_def byte_char_of_char)

lemma length_TextEncoder_encode: "length (TextEncoder_encode s) = length s"
  by (simp add: TextEncoder_encode_def)

lemma sample_pda_seeds:
  "sample_pda (pda_seeds bytes serviceType)
     = ''/payment_req/'' @ map byte_char bytes @ ''/'' @ ToString (seed_of serviceType)"
  by (simp add: sample_pda_def pda_seeds_def byte_char_text)

lemma sample_env_fields:
  "address (sample_env payload) = sample_address"
  "encode_address (sample_env payload) = sample_encode_address"
  "getProgramDerivedAddress (sample_env payload) = sample_derive"
  "getAccountInfo (sample_env payload) = sample_getAccountInfo payload"
  "Buffer_from_base64 (sample_env payload) = base64_decode"
  by (simp_all add: sample_env_def)

lemma seed_of_a2a: "ToString (seed_of ''a2a'') = ''a2a''"
  by (simp add: seed_of_def SERVICE_TYPE_SEEDS_get_def SERVICE_TYPE_SEEDS_def ToString_def)

lemma seed_of_default_category: "ToString (seed_of ''default-category'') = ''default-category''"
  by (simp add: seed_of_def SERVICE_TYPE_SEEDS_get_def SERVICE_TYPE_SEEDS_def
      Object_prototype_names_def ToString_def)

lemma seed_of_constructor:
  "ToString (seed_of ''constructor'') = ''function Object() { [native code] }''"
  by (simp add: seed_of_def SERVICE_TYPE_SEEDS_get_def SERVICE_TYPE_SEEDS_def
      Object_prototype_names_def ToString_def)

lemma sample_derive_short_seed:
  "length (ToString (seed_of serviceType)) \<le> 32
     \<Longrightarrow> sample_derive program (pda_seeds (replicate 32 0) serviceType)
           = Inr (sample_pda (pda_seeds (replicate 32 0) serviceType))"
  by (simp add: sample_derive_def pda_seeds_def length_TextEncoder_encode)

lemma sample_derive_long_seed:
  "32 < length (ToString (seed_of serviceType))
     \<Longrightarrow> sample_derive program (pda_seeds mintBytes serviceType)
           = Inl (ExternalError ''max seed length exceeded'')"
  by (simp add: sample_derive_def pda_seeds_def length_TextEncoder_encode)

section \<open>Properties of the record decoder\<close>

lemma readBigUInt64LE_short: "length buf < offset + 8 \<Longrightarrow> readBigUInt64LE buf offset = Inl RangeError"
  by (simp add: readBigUInt64LE_def)

lemma readUInt32LE_short: "length buf < offset + 4 \<Longrightarrow> readUInt32LE buf offset = Inl RangeError"
  by (simp add: readUInt32LE_def)

lemma readUInt32LE_bound: "readUInt32LE buf offset = Inr n \<Longrightarrow> offset + 4 \<le> length buf"
  by (simp add: readUInt32LE_def split: if_splits)

text \<open>The decoder unfolded to its five fallible steps, with the offsets added up.\<close>

lemma deserialize_try_steps:
  "deserialize_try to_address buf =
     (case readBigUInt64LE buf 42 of
        Inl err \<Rightarrow> Inl err
      | Inr amountValue \<Rightarrow>
          (case readUInt32LE buf 114 of
             Inl err \<Rightarrow> Inl err
           | Inr descLen \<Rightarrow>
               (case readUInt32LE buf (118 + descLen) of
                  Inl err \<Rightarrow> Inl err
                | Inr resLen \<Rightarrow>
                    (case to_address (encodeBase58 (subarray buf 82 114)) of
                       Inl err \<Rightarrow> Inl err
                     | Inr payToText \<Rightarrow>
                         (case to_address (encodeBase58 (subarray buf 50 82)) of
                            Inl err \<Rightarrow> Inl err
                          | Inr tokenMintText \<Rightarrow>
                              Inr \<lparr>payTo = payToText, amount = bigint_toString amountValue,
                                   tokenMint = tokenMintText,
                                   active = (byte_at buf (122 + descLen + resLen) \<noteq> Some 0)\<rparr>)))))"
  by (simp add: deserialize_try_def Let_def add.commute add.left_commute
      split: sum.splits)

lemma deserialize_try_short:
  "length buf < 118 \<Longrightarrow> deserialize_try to_address buf = Inl RangeError"
  by (simp add: deserialize_try_steps readBigUInt64LE_def readUInt32LE_def split: sum.splits)

lemma deserialize_try_description_overrun:
  "readUInt32LE buf 114 = Inr descLen \<Longrightarrow> length buf < 122 + descLen
     \<Longrightarrow> deserialize_try to_address buf = Inl RangeError"
  by (simp add: deserialize_try_steps readBigUInt64LE_def readUInt32LE_def split: sum.splits)

text \<open>
  The base-58 texts of the two address patterns of the layout test, computed by the encoder:
  32 bytes \<open>0x01\<close> and 32 bytes \<open>0x02\<close>.
\<close>

lemma asset_pattern_text:
  "encodeBase58 (replicate 32 1) = ''4vJ9JU1bJJE96FWSJKvHsmmFADCg4gpZQff4P3bkLKi''"
  by (simp add: encodeBase58_def Let_def replicate_numeral base58_digits.simps
      BASE58_ALPHABET_def)

lemma recipient_pattern_text:
  "encodeBase58 (replicate 32 2) = ''8qbHbw2BbbTHBW1sbeqakYXVKRQM8Ne7pLK7m6CVfeR''"
  by (simp add: encodeBase58_def Let_def replicate_numeral base58_digits.simps
      BASE58_ALPHABET_def)

text \<open>
  C1. The layout test: on the synthetic blob (8 zero bytes of discriminator, 32 zero bytes of
  subject, category tag 0, scheme tag 0, the amount 1000000 in 8 little-endian bytes, 32
  bytes \<open>0x01\<close> of asset address, 32 bytes \<open>0x02\<close> of recipient address, an empty
  description, an empty resource and the active byte 1) the decoder gives the record with
  amount \<open>1000000\<close>, active true, \<open>tokenMint\<close> the text
  \<open>4vJ9JU1bJJE96FWSJKvHsmmFADCg4gpZQff4P3bkLKi\<close> and \<open>payTo\<close> the text
  \<open>8qbHbw2BbbTHBW1sbeqakYXVKRQM8Ne7pLK7m6CVfeR\<close>, and logs nothing. These two texts are
  the base-58 encodings of the two 32-byte patterns: read back by hand (leading \<open>1\<close>
  symbols as zero bytes, the rest as the base-58 digits of a big-endian number) they give
  32 bytes \<open>0x01\<close> and 32 bytes \<open>0x02\<close>. The decoder passes both texts through the
  external \<^verbatim>\<open>address\<close> function, which returns a valid address as it is: this is the
  hypothesis on the collaborator.
\<close>

theorem layout_correct:
  assumes "to_address ''4vJ9JU1bJJE96FWSJKvHsmmFADCg4gpZQff4P3bkLKi''
             = Inr ''4vJ9JU1bJJE96FWSJKvHsmmFADCg4gpZQff4P3bkLKi''"
      and "to_address ''8qbHbw2BbbTHBW1sbeqakYXVKRQM8Ne7pLK7m6CVfeR''
             = Inr ''8qbHbw2BbbTHBW1sbeqakYXVKRQM8Ne7pLK7m6CVfeR''"
  shows "deserializePaymentRequirement to_address synthetic_blob =
           (Some \<lparr>payTo = ''8qbHbw2BbbTHBW1sbeqakYXVKRQM8Ne7pLK7m6CVfeR'',
                  amount = ''1000000'',
                  tokenMint = ''4vJ9JU1bJJE96FWSJKvHsmmFADCg4gpZQff4P3bkLKi'',
                  active = True\<rparr>, [])
       \<and> rederive_bytes ''4vJ9JU1bJJE96FWSJKvHsmmFADCg4gpZQff4P3bkLKi'' = replicate 32 1
       \<and> rederive_bytes ''8qbHbw2BbbTHBW1sbeqakYXVKRQM8Ne7pLK7m6CVfeR'' = replicate 32 2"
proof -
  have decoded: "deserializePaymentRequirement to_address synthetic_blob =
           (Some \<lparr>payTo = ''8qbHbw2BbbTHBW1sbeqakYXVKRQM8Ne7pLK7m6CVfeR'',
                  amount = ''1000000'',
                  tokenMint = ''4vJ9JU1bJJE96FWSJKvHsmmFADCg4gpZQff4P3bkLKi'',
                  active = True\<rparr>, [])"
    using assms
    by (simp add: deserializePaymentRequirement_def deserialize_try_steps
        synthetic_blob_reads bigint_1000000 asset_pattern_text recipient_pattern_text)
  have asset: "rederive_bytes ''4vJ9JU1bJJE96FWSJKvHsmmFADCg4gpZQff4P3bkLKi'' = replicate 32 1"
    using rederive_encode [of "replicate 32 1"] by (simp only: asset_pattern_text)
  have recipient:
    "rederive_bytes ''8qbHbw2BbbTHBW1sbeqakYXVKRQM8Ne7pLK7m6CVfeR'' = replicate 32 2"
    using rederive_encode [of "replicate 32 2"] by (simp only: recipient_pattern_text)
  from decoded asset recipient show ?thesis by (simp only: simp_thms)
qed

theorem layout_correct_witness:
  "deserializePaymentRequirement sample_address synthetic_blob =
     (Some \<lparr>payTo = ''8qbHbw2BbbTHBW1sbeqakYXVKRQM8Ne7pLK7m6CVfeR'',
            amount = ''1000000'',
            tokenMint = ''4vJ9JU1bJJE96FWSJKvHsmmFADCg4gpZQff4P3bkLKi'',
            active = True\<rparr>, [])"
proof -
  have asset: "sample_address ''4vJ9JU1bJJE96FWSJKvHsmmFADCg4gpZQff4P3bkLKi''
                 = Inr ''4vJ9JU1bJJE96FWSJKvHsmmFADCg4gpZQff4P3bkLKi''"
    using sample_address_accepts [of "replicate 32 1"] by (simp add: asset_pattern_text)
  have recipient: "sample_address ''8qbHbw2BbbTHBW1sbeqakYXVKRQM8Ne7pLK7m6CVfeR''
                 = Inr ''8qbHbw2BbbTHBW1sbeqakYXVKRQM8Ne7pLK7m6CVfeR''"
    using sample_address_accepts [of "replicate 32 2"] by (simp add: recipient_pattern_text)
  from layout_correct [OF asset recipient] show ?thesis by (rule conjunct1)
qed

text \<open>
  C10. A blob whose two length prefixes can be read and which ends exactly where the active
  flag would be (at offset \<open>122 + descLen + resLen\<close>) does not fail to decode: the flag
  reads as absent, which is not zero, so the record is active. As in C1, the external
  \<^verbatim>\<open>address\<close> function is taken to return the two address texts.
\<close>

theorem missing_flag_is_active:
  assumes "readUInt32LE buf 114 = Inr descLen"
      and "readUInt32LE buf (118 + descLen) = Inr resLen"
      and "length buf = 122 + descLen + resLen"
      and "to_address (encodeBase58 (subarray buf 82 114)) = Inr payToText"
      and "to_address (encodeBase58 (subarray buf 50 82)) = Inr tokenMintText"
  shows "\<exists>amountValue.
           readBigUInt64LE buf 42 = Inr amountValue
           \<and> deserializePaymentRequirement to_address buf =
               (Some \<lparr>payTo = payToText, amount = bigint_toString amountValue,
                      tokenMint = tokenMintText, active = True\<rparr>, [])"
proof -
  from assms(3) have "42 + 7 < length buf" by simp
  then obtain amountValue where a: "readBigUInt64LE buf 42 = Inr amountValue"
    by (simp add: readBigUInt64LE_def)
  from assms(3) have "byte_at buf (122 + descLen + resLen) = None"
    by (simp add: byte_at_def)
  with a assms show ?thesis
    by (simp add: deserializePaymentRequirement_def deserialize_try_steps)
qed

theorem missing_flag_is_active_witness:
  "length flagless_blob = 122 + 0 + 0
   \<and> (\<exists>amountValue.
         readBigUInt64LE flagless_blob 42 = Inr amountValue
         \<and> deserializePaymentRequirement sample_address flagless_blob =
             (Some \<lparr>payTo = encodeBase58 (replicate 32 2), amount = bigint_toString amountValue,
                    tokenMint = encodeBase58 (replicate 32 1), active = True\<rparr>, []))"
  using missing_flag_is_active [of flagless_blob 0 0 sample_address
      "encodeBase58 (replicate 32 2)" "encodeBase58 (replicate 32 1)"]
  by (simp add: flagless_blob_reads sample_address_accepts)

section \<open>Properties of the resolver\<close>

lemma warn_nothing: "warn r [] = r"
  by (simp add: warn_def)

lemma deserializePaymentRequirement_Some:
  "deserializePaymentRequirement to_address buf = (Some d, logged) \<Longrightarrow> logged = []"
  by (simp add: deserializePaymentRequirement_def split: sum.splits)

lemma deserializePaymentRequirement_None:
  "deserializePaymentRequirement to_address buf = (None, logged)
     \<Longrightarrow> \<exists>err. deserialize_try to_address buf = Inl err \<and> logged = [DeserializationError err]"
  by (simp add: deserializePaymentRequirement_def split: sum.splits)

text \<open>The response handling on the usual response, the pair of a base-64 text and its tag.\<close>

lemma handle_response_text:
  "handle_response env now r key (Some (DataArray (DataString text # rest))) =
     (let buf = Buffer_from_base64 env text
      in if length buf < 8 then (None, warn r [AccountDataTooShort (length buf)])
         else
           (case deserializePaymentRequirement (address env) buf of
              (None, logged) \<Rightarrow> (None, warn r (logged @ [FailedToDeserialize (length buf)]))
            | (Some result, logged) \<Rightarrow>
                (Some result,
                 (warn r logged)\<lparr>cache := (cache r)(key \<mapsto>
                    \<lparr>data = result, expiresAt = now + cacheTtlMs r\<rparr>)\<rparr>)))"
  by (simp add: handle_response_def truthy_def)

lemma handle_response_Some:
  assumes "handle_response env now r key response = (Some d, r')"
  shows "r' = r\<lparr>cache := (cache r)(key \<mapsto> \<lparr>data = d, expiresAt = now + cacheTtlMs r\<rparr>)\<rparr>"
  using assms
  by (auto simp add: handle_response_def Let_def warn_nothing
      split: option.splits if_splits account_data.splits list.splits prod.splits
      dest: deserializePaymentRequirement_Some)

lemma handle_response_None:
  assumes "handle_response env now r key response = (None, r')"
  shows "\<exists>logged. r' = warn r logged"
  using assms
  by (auto simp add: handle_response_def Let_def
      split: option.splits if_splits account_data.splits list.splits prod.splits)

lemma handle_response_calls:
  assumes "handle_response env now r key response = (result, r')"
  shows "calls r' = calls r"
proof (cases result)
  case None
  with assms have "handle_response env now r key response = (None, r')" by simp
  from handle_response_None [OF this] show ?thesis
    by (auto simp add: warn_def)
next
  case (Some d)
  with assms have "handle_response env now r key response = (Some d, r')" by simp
  from handle_response_Some [OF this] show ?thesis
    by simp
qed

lemma resolve_miss_address_throws:
  "address env agentMint = Inl err
     \<Longrightarrow> resolve_miss env now r agentMint serviceType = (None, warn r [ErrorResolving err])"
  by (simp add: resolve_miss_def resolve_try_def)

lemma resolve_miss_encode_throws:
  "address env agentMint = Inr mintAddress \<Longrightarrow> encode_address env mintAddress = Inl err
     \<Longrightarrow> resolve_miss env now r agentMint serviceType = (None, warn r [ErrorResolving err])"
  by (simp add: resolve_miss_def resolve_try_def)

lemma resolve_miss_derive_throws:
  "address env agentMint = Inr mintAddress \<Longrightarrow> encode_address env mintAddress = Inr mintBytes
     \<Longrightarrow> getProgramDerivedAddress env Nouxis_PROGRAM_ID (pda_seeds mintBytes serviceType) = Inl err
     \<Longrightarrow> resolve_miss env now r agentMint serviceType =
           (None, warn (called r (Derive Nouxis_PROGRAM_ID (pda_seeds mintBytes serviceType)))
                    [ErrorResolving err])"
  by (simp add: resolve_miss_def resolve_try_def Let_def)

lemma resolve_miss_fetch_throws:
  "address env agentMint = Inr mintAddress \<Longrightarrow> encode_address env mintAddress = Inr mintBytes
     \<Longrightarrow> getProgramDerivedAddress env Nouxis_PROGRAM_ID (pda_seeds mintBytes serviceType) = Inr pda
     \<Longrightarrow> getAccountInfo env pda = Inl err
     \<Longrightarrow> resolve_miss env now r agentMint serviceType =
           (None, warn (called (called r (Derive Nouxis_PROGRAM_ID (pda_seeds mintBytes serviceType)))
                          (Fetch pda))
                    [ErrorResolving err])"
  by (simp add: resolve_miss_def resolve_try_def Let_def)

lemma resolve_miss_fetched:
  "address env agentMint = Inr mintAddress \<Longrightarrow> encode_address env mintAddress = Inr mintBytes
     \<Longrightarrow> getProgramDerivedAddress env Nouxis_PROGRAM_ID (pda_seeds mintBytes serviceType) = Inr pda
     \<Longrightarrow> getAccountInfo env pda = Inr response
     \<Longrightarrow> resolve_miss env now r agentMint serviceType =
           handle_response env now
             (called (called r (Derive Nouxis_PROGRAM_ID (pda_seeds mintBytes serviceType)))
                (Fetch pda))
             (cacheKey agentMint serviceType) response"
  by (simp add: resolve_miss_def resolve_try_def Let_def split: prod.splits)

text \<open>
  A resolution that goes past the cache and returns a record has derived one address,
  fetched it once and stored the record with the expiry \<open>now + cacheTtlMs\<close>.
\<close>

lemma resolve_miss_Some:
  assumes "resolve_miss env now r agentMint serviceType = (Some d, r')"
  shows "\<exists>mintAddress mintBytes pda.
           address env agentMint = Inr mintAddress
           \<and> encode_address env mintAddress = Inr mintBytes
           \<and> getProgramDerivedAddress env Nouxis_PROGRAM_ID (pda_seeds mintBytes serviceType)
               = Inr pda
           \<and> r' = (called (called r (Derive Nouxis_PROGRAM_ID (pda_seeds mintBytes serviceType)))
                   (Fetch pda))
                \<lparr>cache := (cache r)(cacheKey agentMint serviceType \<mapsto>
                    \<lparr>data = d, expiresAt = now + cacheTtlMs r\<rparr>)\<rparr>"
proof (cases "address env agentMint")
  case (Inl err)
  with assms show ?thesis by (simp add: resolve_miss_address_throws)
next
  case a: (Inr mintAddress)
  show ?thesis
  proof (cases "encode_address env mintAddress")
    case (Inl err)
    with assms a show ?thesis by (simp add: resolve_miss_encode_throws)
  next
    case b: (Inr mintBytes)
    let ?seeds = "pda_seeds mintBytes serviceType"
    show ?thesis
    proof (cases "getProgramDerivedAddress env Nouxis_PROGRAM_ID ?seeds")
      case (Inl err)
      with assms a b show ?thesis by (simp add: resolve_miss_derive_throws)
    next
      case c: (Inr pda)
      let ?r2 = "called (called r (Derive Nouxis_PROGRAM_ID ?seeds)) (Fetch pda)"
      show ?thesis
      proof (cases "getAccountInfo env pda")
        case (Inl err)
        with assms a b c show ?thesis by (simp add: resolve_miss_fetch_throws)
      next
        case (Inr response)
        with assms a b c
        have "handle_response env now ?r2 (cacheKey agentMint serviceType) response = (Some d, r')"
          by (simp add: resolve_miss_fetched)
        from handle_response_Some [OF this]
        have "r' = ?r2\<lparr>cache := (cache r)(cacheKey agentMint serviceType \<mapsto>
                    \<lparr>data = d, expiresAt = now + cacheTtlMs r\<rparr>)\<rparr>"
          by (simp add: called_def)
        with a b c show ?thesis by blast
      qed
    qed
  qed
qed

lemma fetch_count_called_Fetch: "fetch_count (called r (Fetch pda)) = Suc (fetch_count r)"
  by (simp add: fetch_count_def called_def)

lemma fetch_count_called_Derive: "fetch_count (called r (Derive program seeds)) = fetch_count r"
  by (simp add: fetch_count_def called_def)

lemma fetch_count_warn: "fetch_count (warn r logged) = fetch_count r"
  by (simp add: fetch_count_def warn_def)

lemma fetch_count_cache_update: "fetch_count (r\<lparr>cache := c\<rparr>) = fetch_count r"
  by (simp add: fetch_count_def)

lemma resolve_miss_Some_effect:
  assumes "resolve_miss env now r agentMint serviceType = (Some d, r')"
  shows "cache r' (cacheKey agentMint serviceType) = Some \<lparr>data = d, expiresAt = now + cacheTtlMs r\<rparr>"
    and "cacheTtlMs r' = cacheTtlMs r"
    and "fetch_count r' = Suc (fetch_count r)"
proof -
  from resolve_miss_Some [OF assms] obtain mintAddress mintBytes pda where
    r': "r' = (called (called r (Derive Nouxis_PROGRAM_ID (pda_seeds mintBytes serviceType)))
                   (Fetch pda))
                \<lparr>cache := (cache r)(cacheKey agentMint serviceType \<mapsto>
                    \<lparr>data = d, expiresAt = now + cacheTtlMs r\<rparr>)\<rparr>"
    by blast
  show "cache r' (cacheKey agentMint serviceType) = Some \<lparr>data = d, expiresAt = now + cacheTtlMs r\<rparr>"
    by (simp add: r')
  show "cacheTtlMs r' = cacheTtlMs r"
    by (simp add: r' called_def)
  show "fetch_count r' = Suc (fetch_count r)"
    by (simp add: r' fetch_count_cache_update fetch_count_called_Fetch fetch_count_called_Derive)
qed

text \<open>
  A resolution that goes past the cache and whose derivation does not throw calls the fetch
  collaborator exactly once, whatever comes back.
\<close>

lemma resolve_miss_fetches:
  assumes "address env agentMint = Inr mintAddress"
      and "encode_address env mintAddress = Inr mintBytes"
      and "getProgramDerivedAddress env Nouxis_PROGRAM_ID (pda_seeds mintBytes serviceType) = Inr pda"
  shows "calls (snd (resolve_miss env now r agentMint serviceType)) =
           calls r @ [Derive Nouxis_PROGRAM_ID (pda_seeds mintBytes serviceType), Fetch pda]"
proof (cases "getAccountInfo env pda")
  case (Inl err)
  with assms show ?thesis
    by (simp add: resolve_miss_fetch_throws warn_def called_def)
next
  case (Inr response)
  let ?r2 = "called (called r (Derive Nouxis_PROGRAM_ID (pda_seeds mintBytes serviceType))) (Fetch pda)"
  obtain result r' where h: "handle_response env now ?r2 (cacheKey agentMint serviceType) response = (result, r')"
    by (cases "handle_response env now ?r2 (cacheKey agentMint serviceType) response") blast
  have "calls r' = calls ?r2"
    using handle_response_calls [OF h] .
  with assms Inr h show ?thesis
    by (simp add: resolve_miss_fetched called_def)
qed

subsection \<open>Resolutions in the reference world\<close>

lemma sample_decodes:
  "deserializePaymentRequirement sample_address synthetic_blob = (Some sample_record, [])"
  by (simp add: deserializePaymentRequirement_def deserialize_try_steps synthetic_blob_reads
      bigint_1000000 sample_address_accepts sample_record_def)

lemma sample_decodes_resource_overrun:
  "deserializePaymentRequirement sample_address resource_overrun_blob = (Some sample_record, [])"
  by (simp add: deserializePaymentRequirement_def deserialize_try_steps
      resource_overrun_blob_reads byte_at_def
      bigint_1000000 sample_address_accepts sample_record_def)

lemma sample_resolve_miss:
  assumes "length (ToString (seed_of serviceType)) \<le> 32"
  shows "resolve_miss (sample_env payload) now r sample_mint serviceType =
           handle_response (sample_env payload) now
             (called (called r (Derive Nouxis_PROGRAM_ID (pda_seeds (replicate 32 0) serviceType)))
                (Fetch (sample_pda (pda_seeds (replicate 32 0) serviceType))))
             (cacheKey sample_mint serviceType)
             (if serviceType = ''a2a''
              then Some (DataArray [DataString payload, DataString ''base64''])
              else None)"
proof -
  have differ: "serviceType \<noteq> ''a2a'' \<Longrightarrow>
      sample_pda (pda_seeds (replicate 32 0) serviceType)
        \<noteq> sample_pda (pda_seeds (replicate 32 0) ''a2a'')"
  proof
    assume ne: "serviceType \<noteq> ''a2a''"
      and eq: "sample_pda (pda_seeds (replicate 32 0) serviceType)
                 = sample_pda (pda_seeds (replicate 32 0) ''a2a'')"
    from eq have t: "ToString (seed_of serviceType) = ''a2a''"
      by (simp add: sample_pda_seeds seed_of_a2a)
    have "serviceType = ''a2a''"
    proof (cases "SERVICE_TYPE_SEEDS_get serviceType")
      case (StringValue v)
      with t have "v = ''a2a''" by (simp add: seed_of_def ToString_def)
      with StringValue show ?thesis
        by (auto simp add: SERVICE_TYPE_SEEDS_get_def SERVICE_TYPE_SEEDS_def
            split: if_splits)
    next
      case (InheritedMember name)
      with t show ?thesis
        by (auto simp add: seed_of_def ToString_def split: if_splits)
    next
      case Undefined
      with t show ?thesis by (simp add: seed_of_def ToString_def)
    qed
    with ne show False by simp
  qed
  have fetched: "sample_getAccountInfo payload
                   (sample_pda (pda_seeds (replicate 32 0) serviceType))
                 = Inr (if serviceType = ''a2a''
                        then Some (DataArray [DataString payload, DataString ''base64''])
                        else None)"
    using differ by (simp add: sample_getAccountInfo_def)
  show ?thesis
    by (rule resolve_miss_fetched [where mintAddress = sample_mint])
       (simp_all add: sample_env_fields sample_mint_address sample_mint_bytes
          sample_derive_short_seed [OF assms] fetched)
qed

lemma sample_resolve_synthetic:
  "resolve_miss (sample_env synthetic_payload) now r sample_mint ''a2a'' =
     (Some sample_record,
      (called (called r (Derive Nouxis_PROGRAM_ID (pda_seeds (replicate 32 0) ''a2a'')))
         (Fetch (sample_pda (pda_seeds (replicate 32 0) ''a2a''))))
      \<lparr>cache := (cache r)(cacheKey sample_mint ''a2a'' \<mapsto>
          \<lparr>data = sample_record, expiresAt = now + cacheTtlMs r\<rparr>)\<rparr>)"
proof -
  have "length synthetic_blob = 123" by (simp add: blob_defs)
  then show ?thesis
    by (simp add: sample_resolve_miss seed_of_a2a handle_response_text sample_env_fields
        synthetic_payload_decodes sample_decodes warn_nothing called_def)
qed

lemma sample_resolve_resource_overrun:
  "fst (resolve_miss (sample_env resource_overrun_payload) now r sample_mint ''a2a'')
     = Some sample_record"
  by (simp add: sample_resolve_miss seed_of_a2a handle_response_text sample_env_fields
      resource_overrun_payload_decodes sample_decodes_resource_overrun
      resource_overrun_blob_reads)

lemma new_resolver_misses: "cache_lookup (new_AgentResolver ttl) key now = None"
  by (simp add: cache_lookup_def new_AgentResolver_def)

lemma resolve_on_miss:
  "cache_lookup r (cacheKey agentMint (serviceType_or_default serviceType)) now_lookup = None
     \<Longrightarrow> resolve env now_lookup now_store r agentMint serviceType
           = resolve_miss env now_store r agentMint (serviceType_or_default serviceType)"
  by (simp add: resolve_def)

lemma resolve_on_hit:
  "cache_lookup r (cacheKey agentMint (serviceType_or_default serviceType)) now_lookup = Some d
     \<Longrightarrow> resolve env now_lookup now_store r agentMint serviceType = (Some d, r)"
  by (simp add: resolve_def)

lemma sample_first_resolve:
  "resolve (sample_env synthetic_payload) now_lookup now_store (new_AgentResolver ttl)
     sample_mint None =
     (Some sample_record,
      (called (called (new_AgentResolver ttl)
          (Derive Nouxis_PROGRAM_ID (pda_seeds (replicate 32 0) ''a2a'')))
         (Fetch (sample_pda (pda_seeds (replicate 32 0) ''a2a''))))
      \<lparr>cache := (cache (new_AgentResolver ttl))(cacheKey sample_mint ''a2a'' \<mapsto>
          \<lparr>data = sample_record,
           expiresAt = now_store + cacheTtlMs (new_AgentResolver ttl)\<rparr>)\<rparr>)"
  by (simp add: resolve_on_miss new_resolver_misses serviceType_or_default_def
      sample_resolve_synthetic)

section \<open>The claims about the resolver\<close>

text \<open>
  C3, as the code has it. The response handling rejects a blob before any field read only
  when it is shorter than 8 bytes, the discriminator. A blob of 8 to 39 bytes (and any blob
  shorter than 118 bytes) is handed to the decoder and comes back absent because the
  bounds-checked read of the amount raises a range error that the decoder catches; the
  diagnostics tell the two rejections apart. A blob whose description length prefix
  (0xFFFFFFFF, say) carries the next length prefix past the end of the blob comes back
  absent in the same way, the bounds check of that read failing before anything is read.
  In each case the result is absent and only the console changes.
\<close>

theorem undecodable_blob_absent:
  assumes "Buffer_from_base64 env text = buf"
      and "length buf < 40
           \<or> (\<exists>descLen. readUInt32LE buf 114 = Inr descLen \<and> length buf < 122 + descLen)"
  shows "handle_response env now r key (Some (DataArray [DataString text, DataString ''base64''])) =
           (None,
            warn r (if length buf < 8 then [AccountDataTooShort (length buf)]
                    else [DeserializationError RangeError, FailedToDeserialize (length buf)]))"
proof -
  from assms(2) have "deserialize_try (address env) buf = Inl RangeError"
    by (auto intro: deserialize_try_short deserialize_try_description_overrun)
  then show ?thesis
    by (simp add: handle_response_text assms(1) deserializePaymentRequirement_def)
qed

theorem undecodable_blob_absent_witness:
  "handle_response (sample_env short_payload) 0 (new_AgentResolver None) ''key''
       (Some (DataArray [DataString short_payload, DataString ''base64''])) =
     (None, warn (new_AgentResolver None)
              [DeserializationError RangeError, FailedToDeserialize 39])
   \<and> handle_response (sample_env description_overrun_payload) 0 (new_AgentResolver None) ''key''
       (Some (DataArray [DataString description_overrun_payload, DataString ''base64''])) =
     (None, warn (new_AgentResolver None)
              [DeserializationError RangeError, FailedToDeserialize 123])"
  using undecodable_blob_absent [of "sample_env short_payload" short_payload "replicate 39 0"
          0 "new_AgentResolver None" "''key''"]
        undecodable_blob_absent [of "sample_env description_overrun_payload"
          description_overrun_payload description_overrun_blob
          0 "new_AgentResolver None" "''key''"]
  by (simp add: sample_env_fields short_payload_decodes description_overrun_payload_decodes
      description_overrun_blob_reads)

text \<open>
  C3 as stated fails: a blob of 39 bytes passes the length guard of the response handling
  (39 is not below 8), the decoder attempts the read of the amount at offset 42, and that
  read raises the range error; the blob is rejected by the \<^verbatim>\<open>catch\<close>, not before any
  field read.
\<close>

theorem short_blob_counterexample:
  "\<not> length (replicate 39 (0 :: byte)) < 8
   \<and> readBigUInt64LE (replicate 39 0) 42 = Inl RangeError
   \<and> deserializePaymentRequirement sample_address (replicate 39 0)
       = (None, [DeserializationError RangeError])
   \<and> snd (handle_response (sample_env short_payload) 0 (new_AgentResolver None) ''key''
           (Some (DataArray [DataString short_payload, DataString ''base64''])))
       \<noteq> warn (new_AgentResolver None) [AccountDataTooShort 39]"
  by (simp add: readBigUInt64LE_def deserializePaymentRequirement_def deserialize_try_short
      handle_response_text sample_env_fields short_payload_decodes warn_def
      new_AgentResolver_def)

text \<open>
  C5. The cache serves a stored entry exactly when the time of the lookup is strictly
  before the expiry stamped at the store, \<open>now + ttl\<close>. After a resolution that went past
  the cache and stored the record \<open>d\<close> at time \<open>t_store\<close>, the entry expires at
  \<open>t_store + cacheTtlMs\<close>; a later resolution of the same key at a time before that
  returns \<open>d\<close> and leaves the resolver as it is (no call, no fetch), and one at or after
  that time does what a miss does: with the same derivation collaborators as the storing
  call, it calls the fetch collaborator once more.
\<close>

theorem cache_ttl_boundary:
  assumes "cache_lookup r (cacheKey agentMint (serviceType_or_default serviceType)) t_lookup = None"
      and "resolve env t_lookup t_store r agentMint serviceType = (Some d, r1)"
  shows "cache r1 (cacheKey agentMint (serviceType_or_default serviceType))
           = Some \<lparr>data = d, expiresAt = t_store + cacheTtlMs r\<rparr>
       \<and> (now < t_store + cacheTtlMs r \<longrightarrow>
            resolve env' now now' r1 agentMint serviceType = (Some d, r1))
       \<and> (t_store + cacheTtlMs r \<le> now \<longrightarrow>
            resolve env' now now' r1 agentMint serviceType
              = resolve_miss env' now' r1 agentMint (serviceType_or_default serviceType))
       \<and> (t_store + cacheTtlMs r \<le> now
            \<and> address env' = address env
            \<and> encode_address env' = encode_address env
            \<and> getProgramDerivedAddress env' = getProgramDerivedAddress env \<longrightarrow>
            fetch_count (snd (resolve env' now now' r1 agentMint serviceType))
              = Suc (fetch_count r1))"
proof -
  let ?key = "cacheKey agentMint (serviceType_or_default serviceType)"
  from assms have miss: "resolve_miss env t_store r agentMint (serviceType_or_default serviceType)
                           = (Some d, r1)"
    by (simp add: resolve_on_miss)
  have entry: "cache r1 ?key = Some \<lparr>data = d, expiresAt = t_store + cacheTtlMs r\<rparr>"
    by (rule resolve_miss_Some_effect(1) [OF miss])
  have hit: "resolve env' now now' r1 agentMint serviceType = (Some d, r1)"
    if "now < t_store + cacheTtlMs r"
    using that by (simp add: resolve_on_hit cache_lookup_def entry)
  have expired: "cache_lookup r1 ?key now = None" if "t_store + cacheTtlMs r \<le> now"
    using that by (simp add: cache_lookup_def entry)
  have again: "resolve env' now now' r1 agentMint serviceType
                 = resolve_miss env' now' r1 agentMint (serviceType_or_default serviceType)"
    if "t_store + cacheTtlMs r \<le> now"
    using expired [OF that] by (rule resolve_on_miss)
  have fetches: "fetch_count (snd (resolve env' now now' r1 agentMint serviceType))
                   = Suc (fetch_count r1)"
    if expired_now: "t_store + cacheTtlMs r \<le> now"
      and same: "address env' = address env" "encode_address env' = encode_address env"
        "getProgramDerivedAddress env' = getProgramDerivedAddress env"
  proof -
    from resolve_miss_Some [OF miss] obtain mintAddress mintBytes pda where
      "address env agentMint = Inr mintAddress"
      "encode_address env mintAddress = Inr mintBytes"
      "getProgramDerivedAddress env Nouxis_PROGRAM_ID
         (pda_seeds mintBytes (serviceType_or_default serviceType)) = Inr pda"
      by blast
    with same have
      "address env' agentMint = Inr mintAddress"
      "encode_address env' mintAddress = Inr mintBytes"
      "getProgramDerivedAddress env' Nouxis_PROGRAM_ID
         (pda_seeds mintBytes (serviceType_or_default serviceType)) = Inr pda"
      by simp_all
    from resolve_miss_fetches [OF this, of now' r1] again [OF expired_now]
    show ?thesis by (simp add: fetch_count_def)
  qed
  from entry hit again fetches show ?thesis by blast
qed

theorem cache_ttl_boundary_witness:
  "(let world = sample_env synthetic_payload;
        r1 = snd (resolve world 0 0 (new_AgentResolver (Some 30000)) sample_mint None)
    in resolve world 29999 29999 r1 sample_mint None = (Some sample_record, r1)
       \<and> fetch_count r1 = 1
       \<and> fetch_count (snd (resolve world 30001 30001 r1 sample_mint None)) = 2)"
proof -
  let ?world = "sample_env synthetic_payload"
  let ?r = "new_AgentResolver (Some 30000)"
  obtain r1 where first: "resolve ?world 0 0 ?r sample_mint None = (Some sample_record, r1)"
    by (simp add: sample_first_resolve)
  have miss: "cache_lookup ?r (cacheKey sample_mint (serviceType_or_default None)) 0 = None"
    by (rule new_resolver_misses)
  have ttl: "cacheTtlMs ?r = 30000"
    by (simp add: new_AgentResolver_def)
  have "resolve_miss ?world 0 ?r sample_mint (serviceType_or_default None)
          = (Some sample_record, r1)"
    using first miss by (simp add: resolve_on_miss)
  from resolve_miss_Some_effect(3) [OF this]
  have count: "fetch_count r1 = 1"
    by (simp add: fetch_count_def new_AgentResolver_def)
  from cache_ttl_boundary [OF miss first, of 29999 ?world 29999]
  have served: "resolve ?world 29999 29999 r1 sample_mint None = (Some sample_record, r1)"
    by (simp add: ttl)
  from cache_ttl_boundary [OF miss first, of 30001 ?world 30001]
  have refetched: "fetch_count (snd (resolve ?world 30001 30001 r1 sample_mint None)) = 2"
    by (auto simp add: ttl count)
  from first served count refetched show ?thesis
    by (simp add: Let_def)
qed

text \<open>
  C6 as stated fails for a key whose resolution returns absent: nothing is stored for it
  (the resolver has no negative caching), so the second of two successive resolutions
  fetches again. In the reference world the account of category \<open>default-category\<close>
  does not exist; both calls return absent and the fetch collaborator is called twice.
\<close>

theorem idempotence_counterexample:
  "(let world = sample_env synthetic_payload;
        first = resolve world 0 0 (new_AgentResolver None) sample_mint (Some ''default-category'');
        second = resolve world 1 1 (snd first) sample_mint (Some ''default-category'')
    in fst first = None \<and> fst second = None \<and> cache (snd first) = Map.empty
       \<and> fetch_count (snd second) = 2)"
proof -
  let ?world = "sample_env synthetic_payload"
  have absent: "resolve_miss ?world now r sample_mint ''default-category''
          = (None, warn (called (called r
                (Derive Nouxis_PROGRAM_ID (pda_seeds (replicate 32 0) ''default-category'')))
                (Fetch (sample_pda (pda_seeds (replicate 32 0) ''default-category''))))
              [NoAccountData])" for now r
    by (simp add: sample_resolve_miss seed_of_default_category handle_response_def)
  have unserved: "cache r = Map.empty \<Longrightarrow>
      resolve ?world now now r sample_mint (Some ''default-category'')
        = resolve_miss ?world now r sample_mint ''default-category''" for now r
    by (simp add: resolve_def serviceType_or_default_def cache_lookup_def)
  have empty: "cache (new_AgentResolver None) = Map.empty"
    by (simp add: new_AgentResolver_def)
  have kept: "cache (warn (called (called r c1) c2) logged) = cache r" for r c1 c2 logged
    by (simp add: warn_def called_def)
  have counted: "fetch_count (warn (called (called r (Derive p s)) (Fetch a)) logged)
                   = Suc (fetch_count r)" for r p s a logged
    by (simp add: fetch_count_warn fetch_count_called_Fetch fetch_count_called_Derive)
  have none: "fetch_count (new_AgentResolver None) = 0"
    by (simp add: fetch_count_def new_AgentResolver_def)
  show ?thesis
    by (simp add: Let_def unserved empty absent kept counted none)
qed

text \<open>
  C6, as the code has it. Two successive resolutions of the same key: when the first goes
  past the cache and returns a record, and the second comes before the expiry of the entry
  the first stored, the second returns the same record, and across both the fetch
  collaborator has been called exactly once.
\<close>

theorem resolve_idempotent:
  assumes "cache_lookup r (cacheKey agentMint (serviceType_or_default serviceType)) t1 = None"
      and "resolve env t1 t_store r agentMint serviceType = (Some d, r1)"
      and "t2 < t_store + cacheTtlMs r"
  shows "fst (resolve env' t2 t2' r1 agentMint serviceType) = Some d
       \<and> fetch_count (snd (resolve env' t2 t2' r1 agentMint serviceType)) = fetch_count r + 1"
proof -
  let ?key = "cacheKey agentMint (serviceType_or_default serviceType)"
  from assms(1,2)
  have miss: "resolve_miss env t_store r agentMint (serviceType_or_default serviceType)
                = (Some d, r1)"
    by (simp add: resolve_on_miss)
  have "cache_lookup r1 ?key t2 = Some d"
    using resolve_miss_Some_effect(1) [OF miss] assms(3)
    by (simp add: cache_lookup_def)
  then have "resolve env' t2 t2' r1 agentMint serviceType = (Some d, r1)"
    by (rule resolve_on_hit)
  with resolve_miss_Some_effect(3) [OF miss] show ?thesis
    by simp
qed

theorem resolve_idempotent_witness:
  "(let world = sample_env synthetic_payload;
        first = resolve world 0 0 (new_AgentResolver None) sample_mint (Some ''a2a'');
        second = resolve world 29999 29999 (snd first) sample_mint (Some ''a2a'')
    in fst first = Some sample_record \<and> fst second = Some sample_record
       \<and> fetch_count (snd second) = 1)"
proof -
  let ?world = "sample_env synthetic_payload"
  let ?r = "new_AgentResolver None"
  have same: "resolve ?world a b ?r sample_mint (Some ''a2a'')
                = resolve ?world a b ?r sample_mint None" for a b
    by (simp add: resolve_def serviceType_or_default_def)
  obtain r1 where first: "resolve ?world 0 0 ?r sample_mint (Some ''a2a'') = (Some sample_record, r1)"
    by (simp add: same sample_first_resolve)
  have miss: "cache_lookup ?r (cacheKey sample_mint (serviceType_or_default (Some ''a2a''))) 0 = None"
    by (rule new_resolver_misses)
  have fresh: "(29999 :: int) < 0 + cacheTtlMs ?r"
    by (simp add: new_AgentResolver_def)
  have none: "fetch_count ?r = 0"
    by (simp add: fetch_count_def new_AgentResolver_def)
  from resolve_idempotent [OF miss first fresh, of ?world 29999] first none
  show ?thesis
    by (simp add: Let_def)
qed

text \<open>
  C8 as stated fails: the separator may occur in a component, and then two different pairs
  share a cache key. A resolver holding an unexpired entry for the pair
  \<open>(a, b:c)\<close> serves it to a resolution of \<open>(a:b, c)\<close>.
\<close>

theorem cache_key_counterexample:
  "(''a:b'', ''c'') \<noteq> (''a'', ''b:c'')
   \<and> cacheKey ''a:b'' ''c'' = cacheKey ''a'' ''b:c''
   \<and> resolve (sample_env synthetic_payload) 0 0
         ((new_AgentResolver None)\<lparr>cache := [cacheKey ''a'' ''b:c'' \<mapsto>
             \<lparr>data = sample_record, expiresAt = 30000\<rparr>]\<rparr>)
         ''a:b'' (Some ''c'')
       = (Some sample_record,
          (new_AgentResolver None)\<lparr>cache := [cacheKey ''a'' ''b:c'' \<mapsto>
             \<lparr>data = sample_record, expiresAt = 30000\<rparr>]\<rparr>)"
  by (simp add: cacheKey_def resolve_def serviceType_or_default_def cache_lookup_def)

lemma cacheKey_same_subject:
  "cacheKey agentMint serviceType1 = cacheKey agentMint serviceType2
     \<Longrightarrow> serviceType1 = serviceType2"
  by (simp add: cacheKey_def)

lemma cacheKey_same_category:
  "cacheKey agentMint1 serviceType = cacheKey agentMint2 serviceType
     \<Longrightarrow> agentMint1 = agentMint2"
  by (simp add: cacheKey_def)

lemma cacheKey_subject:
  "CHR '':'' \<notin> set agentMint
     \<Longrightarrow> takeWhile (\<lambda>c. c \<noteq> CHR '':'') (cacheKey agentMint serviceType) = agentMint"
  by (induction agentMint) (auto simp add: cacheKey_def)

lemma cacheKey_no_separator:
  assumes "cacheKey agentMint1 serviceType1 = cacheKey agentMint2 serviceType2"
      and "CHR '':'' \<notin> set agentMint1" and "CHR '':'' \<notin> set agentMint2"
  shows "agentMint1 = agentMint2 \<and> serviceType1 = serviceType2"
proof -
  let ?subject = "takeWhile (\<lambda>c. c \<noteq> CHR '':'')"
  have "agentMint1 = ?subject (cacheKey agentMint1 serviceType1)"
    by (simp only: cacheKey_subject [OF assms(2)])
  also have "\<dots> = ?subject (cacheKey agentMint2 serviceType2)"
    by (simp only: assms(1))
  also have "\<dots> = agentMint2"
    by (rule cacheKey_subject [OF assms(3)])
  finally have "agentMint1 = agentMint2" .
  with assms(1) show ?thesis by (simp add: cacheKey_def)
qed

text \<open>
  C8, as the code has it. Two different pairs have different cache keys whenever they share
  the subject, or share the category, or neither subject contains the separator \<open>:\<close>;
  and then storing an entry for one pair does not change what the cache serves for the
  other. So resolving \<open>(subjectA, a)\<close> never returns the entry stored for
  \<open>(subjectA, b)\<close> or for \<open>(subjectB, a)\<close>.
\<close>

theorem cache_key_isolation:
  assumes "(agentMint1, serviceType1) \<noteq> (agentMint2, serviceType2)"
      and "agentMint1 = agentMint2 \<or> serviceType1 = serviceType2
           \<or> (CHR '':'' \<notin> set agentMint1 \<and> CHR '':'' \<notin> set agentMint2)"
  shows "cacheKey agentMint1 serviceType1 \<noteq> cacheKey agentMint2 serviceType2
       \<and> cache_lookup (r\<lparr>cache := (cache r)(cacheKey agentMint2 serviceType2 \<mapsto> entry)\<rparr>)
             (cacheKey agentMint1 serviceType1) now
           = cache_lookup r (cacheKey agentMint1 serviceType1) now"
proof -
  have "cacheKey agentMint1 serviceType1 \<noteq> cacheKey agentMint2 serviceType2"
  proof
    assume eq: "cacheKey agentMint1 serviceType1 = cacheKey agentMint2 serviceType2"
    from assms(2) consider "agentMint1 = agentMint2" | "serviceType1 = serviceType2"
      | "CHR '':'' \<notin> set agentMint1 \<and> CHR '':'' \<notin> set agentMint2" by blast
    then have "agentMint1 = agentMint2 \<and> serviceType1 = serviceType2"
    proof cases
      case 1
      from eq have "cacheKey agentMint2 serviceType1 = cacheKey agentMint2 serviceType2"
        by (simp only: 1)
      from cacheKey_same_subject [OF this] 1 show ?thesis by blast
    next
      case 2
      from eq have "cacheKey agentMint1 serviceType2 = cacheKey agentMint2 serviceType2"
        by (simp only: 2)
      from cacheKey_same_category [OF this] 2 show ?thesis by blast
    next
      case 3
      then show ?thesis using cacheKey_no_separator [OF eq] by blast
    qed
    with assms(1) show False by simp
  qed
  then show ?thesis by (simp add: cache_lookup_def)
qed

theorem cache_key_isolation_witness:
  "cacheKey ''subjectA'' ''a'' \<noteq> cacheKey ''subjectA'' ''b''
   \<and> cacheKey ''subjectA'' ''a'' \<noteq> cacheKey ''subjectB'' ''a''
   \<and> cache_lookup ((new_AgentResolver None)\<lparr>cache := (cache (new_AgentResolver None))
          (cacheKey ''subjectB'' ''a'' \<mapsto> \<lparr>data = sample_record, expiresAt = 30000\<rparr>)\<rparr>)
        (cacheKey ''subjectA'' ''a'') 0
      = cache_lookup (new_AgentResolver None) (cacheKey ''subjectA'' ''a'') 0"
  using cache_key_isolation [of "''subjectA''" "''a''" "''subjectA''" "''b''"]
        cache_key_isolation [of "''subjectA''" "''a''" "''subjectB''" "''a''"
          "new_AgentResolver None" "\<lparr>data = sample_record, expiresAt = 30000\<rparr>" 0]
  by simp

text \<open>
  C9 as stated fails: the default of the omitted category is \<open>a2a\<close>, not
  \<open>default-category\<close>. In the reference world the account of category \<open>a2a\<close> exists
  and that of \<open>default-category\<close> does not, so the two calls differ.
\<close>

theorem default_category_counterexample:
  "fst (resolve (sample_env synthetic_payload) 0 0 (new_AgentResolver None) sample_mint None)
     = Some sample_record
   \<and> fst (resolve (sample_env synthetic_payload) 0 0 (new_AgentResolver None) sample_mint
            (Some ''default-category''))
     = None"
proof -
  have "fst (resolve (sample_env synthetic_payload) 0 0 (new_AgentResolver None) sample_mint
               (Some ''default-category'')) = None"
    by (simp add: resolve_on_miss new_resolver_misses serviceType_or_default_def
        sample_resolve_miss seed_of_default_category handle_response_def)
  then show ?thesis by (simp add: sample_first_resolve)
qed

text \<open>
  C9, as the code has it: calling \<open>resolve\<close> with the category omitted is calling it with
  the category \<open>a2a\<close>.
\<close>

theorem default_category_a2a:
  "resolve env now_lookup now_store r agentMint None
     = resolve env now_lookup now_store r agentMint (Some ''a2a'')"
  by (simp add: resolve_def serviceType_or_default_def)

subsection \<open>The seeds of the derivation\<close>

lemma seed_of_known:
  "serviceType \<in> {''mcp'', ''a2a'', ''api'', ''web''}
     \<Longrightarrow> seed_of serviceType = StringValue serviceType"
  by (auto simp add: seed_of_def SERVICE_TYPE_SEEDS_get_def SERVICE_TYPE_SEEDS_def)

lemma seed_of_not_inherited:
  "serviceType \<notin> set Object_prototype_names \<Longrightarrow> seed_of serviceType = StringValue serviceType"
  by (auto simp add: seed_of_def SERVICE_TYPE_SEEDS_get_def SERVICE_TYPE_SEEDS_def
      split: if_splits)

text \<open>
  For every category that is not the name of a member of \<^verbatim>\<open>Object.prototype\<close> the seeds
  are the three of C7, in order: the tag \<open>payment_req\<close>, the bytes of the subject address
  and the bytes of the category's own text (for the four known categories the canonical seed
  is that text). A resolution that goes past the cache calls the derivation with them.
\<close>

lemma pda_seeds_literal:
  "serviceType \<notin> set Object_prototype_names
     \<Longrightarrow> pda_seeds mintBytes serviceType
           = [TextEncoder_encode ''payment_req'', mintBytes, TextEncoder_encode serviceType]"
  by (simp add: pda_seeds_def seed_of_not_inherited ToString_def)

lemma derivation_called_with_seeds:
  assumes "address env agentMint = Inr mintAddress"
      and "encode_address env mintAddress = Inr mintBytes"
  shows "\<exists>rest. calls (snd (resolve_miss env now r agentMint serviceType))
           = calls r @ Derive Nouxis_PROGRAM_ID (pda_seeds mintBytes serviceType) # rest"
proof (cases "getProgramDerivedAddress env Nouxis_PROGRAM_ID (pda_seeds mintBytes serviceType)")
  case (Inl err)
  with assms show ?thesis
    by (simp add: resolve_miss_derive_throws warn_def called_def)
next
  case (Inr pda)
  from resolve_miss_fetches [OF assms this] show ?thesis by simp
qed

text \<open>
  C7 at the category \<open>constructor\<close>: the lookup in \<^verbatim>\<open>SERVICE_TYPE_SEEDS\<close> finds the
  member \<^verbatim>\<open>constructor\<close> inherited from \<^verbatim>\<open>Object.prototype\<close>, so the fallback to the
  category's own text is not taken, and the third seed handed to the derivation is the text
  of the function \<^verbatim>\<open>Object\<close>, not the bytes of \<open>constructor\<close>.
\<close>

theorem inherited_name_seed:
  "calls (snd (resolve (sample_env synthetic_payload) 0 0 (new_AgentResolver None) sample_mint
                 (Some ''constructor'')))
     = [Derive Nouxis_PROGRAM_ID
          [TextEncoder_encode ''payment_req'', replicate 32 0,
           TextEncoder_encode ''function Object() { [native code] }'']]
   \<and> TextEncoder_encode ''function Object() { [native code] }''
       \<noteq> TextEncoder_encode ''constructor''"
proof -
  have long: "32 < length (ToString (seed_of ''constructor''))"
    by (simp add: seed_of_constructor)
  have "resolve_miss (sample_env synthetic_payload) 0 (new_AgentResolver None) sample_mint
          ''constructor''
        = (None, warn (called (new_AgentResolver None)
                         (Derive Nouxis_PROGRAM_ID (pda_seeds (replicate 32 0) ''constructor'')))
                   [ErrorResolving (ExternalError ''max seed length exceeded'')])"
    by (rule resolve_miss_derive_throws [where mintAddress = sample_mint])
       (simp_all add: sample_env_fields sample_mint_address sample_mint_bytes
          sample_derive_long_seed [OF long])
  moreover have "resolve (sample_env synthetic_payload) 0 0 (new_AgentResolver None)
                   sample_mint (Some ''constructor'')
                 = resolve_miss (sample_env synthetic_payload) 0 (new_AgentResolver None)
                     sample_mint ''constructor''"
    by (simp add: resolve_on_miss new_resolver_misses serviceType_or_default_def)
  ultimately have "calls (snd (resolve (sample_env synthetic_payload) 0 0
                      (new_AgentResolver None) sample_mint (Some ''constructor'')))
             = [Derive Nouxis_PROGRAM_ID (pda_seeds (replicate 32 0) ''constructor'')]"
    by (simp add: warn_def called_def new_AgentResolver_def)
  moreover have "length (TextEncoder_encode ''function Object() { [native code] }'')
                   \<noteq> length (TextEncoder_encode ''constructor'')"
    by (simp add: length_TextEncoder_encode)
  ultimately show ?thesis
    by (auto simp add: pda_seeds_def seed_of_constructor)
qed

subsection \<open>Failures of the steps\<close>

text \<open>
  What \<open>resolve\<close> returns when a step fails: absent, with the cache as it was. A thrown
  value never leaves \<open>resolve\<close>; it ends in the console.
\<close>

lemma resolve_miss_thrown:
  "fst (resolve_try env now r agentMint serviceType) = Inl err
     \<Longrightarrow> \<exists>r'. resolve_try env now r agentMint serviceType = (Inl err, r')
            \<and> resolve_miss env now r agentMint serviceType = (None, warn r' [ErrorResolving err])"
  by (cases "resolve_try env now r agentMint serviceType") (simp add: resolve_miss_def)

lemma handle_response_not_found:
  "response = None \<or> response = Some DataMissing \<or> response = Some (DataString [])
     \<Longrightarrow> handle_response env now r key response = (None, warn r [NoAccountData])"
  by (auto simp add: handle_response_def truthy_def)

lemma resolve_miss_absent_keeps_cache:
  assumes "resolve_miss env now r agentMint serviceType = (None, r')"
  shows "cache r' = cache r"
proof (cases "address env agentMint")
  case (Inl err)
  with assms show ?thesis by (auto simp add: resolve_miss_address_throws warn_def)
next
  case a: (Inr mintAddress)
  show ?thesis
  proof (cases "encode_address env mintAddress")
    case (Inl err)
    with assms a show ?thesis by (auto simp add: resolve_miss_encode_throws warn_def)
  next
    case b: (Inr mintBytes)
    let ?seeds = "pda_seeds mintBytes serviceType"
    show ?thesis
    proof (cases "getProgramDerivedAddress env Nouxis_PROGRAM_ID ?seeds")
      case (Inl err)
      with assms a b show ?thesis
        by (auto simp add: resolve_miss_derive_throws warn_def called_def)
    next
      case c: (Inr pda)
      let ?r2 = "called (called r (Derive Nouxis_PROGRAM_ID ?seeds)) (Fetch pda)"
      have r2: "cache ?r2 = cache r" by (simp add: called_def)
      show ?thesis
      proof (cases "getAccountInfo env pda")
        case (Inl err)
        with assms a b c show ?thesis
          by (auto simp add: resolve_miss_fetch_throws warn_def called_def)
      next
        case (Inr response)
        with assms a b c
        have "handle_response env now ?r2 (cacheKey agentMint serviceType) response = (None, r')"
          by (simp add: resolve_miss_fetched)
        from handle_response_None [OF this] obtain logged where "r' = warn ?r2 logged"
          by blast
        with r2 show ?thesis by (simp add: warn_def)
      qed
    qed
  qed
qed

text \<open>
  C2 at a blob whose resource label declares \<open>0xFFFFFFFF\<close> bytes and which ends after
  that length prefix, 122 bytes long: the declared length runs past the end of the blob, the
  blob is malformed, and yet \<open>resolve\<close> returns a record, with the active flag set. The
  decoder reads the flag at an offset past the end, where the byte is absent and an absent
  byte is not zero; no bounds check fails, as one does for the description.
\<close>

theorem resource_overrun_resolves:
  "readUInt32LE resource_overrun_blob 118 = Inr 4294967295
   \<and> length resource_overrun_blob = 122
   \<and> fst (resolve (sample_env resource_overrun_payload) 0 0 (new_AgentResolver None)
            sample_mint None)
       = Some sample_record
   \<and> active sample_record"
  by (simp add: resource_overrun_blob_reads resolve_on_miss new_resolver_misses
      serviceType_or_default_def sample_resolve_resource_overrun sample_record_def)

end
